theory Spec2Isabelle
  imports Main
begin

section \<open>JavaScript strings and numbers\<close>

text \<open>
  A JavaScript string is modelled as a \<^typ>\<open>string\<close>, one \<^typ>\<open>char\<close> per code unit
  (code units below 256). The numbers that the helpers compute with are the doubles with
  an integral value, \<open>NaN\<close> and the two infinities.
\<close>

datatype number = NaN | Num int | PosInfinity | NegInfinity

text \<open>\<open>s.split(c)\<close> for a one-character separator: never the empty array.\<close>

fun split_on :: "char \<Rightarrow> string \<Rightarrow> string list" where
  "split_on c [] = [[]]"
| "split_on c (x # xs) =
     (if x = c then [] # split_on c xs
      else (case split_on c xs of
              w # ws \<Rightarrow> (x # w) # ws
            | [] \<Rightarrow> [[x]]))"

text \<open>Array destructuring \<open>[a, b] = arr\<close>: a missing element is \<open>undefined\<close>.\<close>

fun nth_opt :: "'a list \<Rightarrow> nat \<Rightarrow> 'a option" where
  "nth_opt [] n = None"
| "nth_opt (x # xs) 0 = Some x"
| "nth_opt (x # xs) (Suc n) = nth_opt xs n"

text \<open>White space and line terminators of ECMAScript, among the code units below 256.\<close>

definition isWhiteSpace :: "char \<Rightarrow> bool" where
  "isWhiteSpace c = ((of_char c :: nat) \<in> {9, 10, 11, 12, 13, 32, 160})"

definition isDigit :: "char \<Rightarrow> bool" where
  "isDigit c = (48 \<le> (of_char c :: nat) \<and> (of_char c :: nat) \<le> 57)"

definition digitVal :: "char \<Rightarrow> int" where
  "digitVal c = of_char c - 48"

definition digitsVal :: "string \<Rightarrow> int" where
  "digitsVal ds = foldl (\<lambda>a c. 10 * a + digitVal c) 0 ds"

text \<open>
  The Number value for an integer that is not negative: the nearest double, which has a significand of
  53 bits; a tie goes to the even significand, and a result of \<open>2 ^ 1024\<close> or more is
  \<open>Infinity\<close>, here \<open>None\<close>. Below \<open>2 ^ 53\<close> every such integer is a double.
\<close>

function bitLength :: "int \<Rightarrow> nat" where
  "bitLength n = (if n \<le> 0 then 0 else Suc (bitLength (n div 2)))"
  by pat_completeness auto
termination
  by (relation "measure nat") auto

declare bitLength.simps [simp del]

definition toDouble :: "int \<Rightarrow> int option" where
  "toDouble n =
     (if n < 9007199254740992 then Some n
      else (let e = bitLength n - 53;
                q = n div 2 ^ e;
                r = n mod 2 ^ e;
                q' = (if 2 ^ e < 2 * r \<or> (2 * r = 2 ^ e \<and> odd q) then q + 1 else q);
                v = q' * 2 ^ e
            in if 2 ^ 1024 \<le> v then None else Some v))"

text \<open>
  \<open>parseInt(s, 10)\<close>: leading white space is skipped, one sign is read, then the
  longest run of decimal digits; no digit at all gives \<open>NaN\<close>. The result is the Number
  value for the integer that the digits denote (every digit counts: an engine may read
  the digits after the 20th as zeros).
\<close>

definition parseInt10 :: "string \<Rightarrow> number" where
  "parseInt10 s =
     (let t = dropWhile isWhiteSpace s;
          neg = (case t of c # r \<Rightarrow> c = CHR ''-'' | [] \<Rightarrow> False);
          u = (case t of c # r \<Rightarrow> if c = CHR ''-'' \<or> c = CHR ''+'' then r else t | [] \<Rightarrow> t);
          ds = takeWhile isDigit u
      in if ds = [] then NaN
         else (case toDouble (digitsVal ds) of
                 None \<Rightarrow> if neg then NegInfinity else PosInfinity
               | Some v \<Rightarrow> Num (if neg then - v else v)))"

text \<open>
  The remainder operator \<open>%\<close> on finite numbers: the result has the sign of the
  dividend, and is exact.
\<close>

definition jsRem :: "int \<Rightarrow> int \<Rightarrow> int" where
  "jsRem a b = (if a < 0 then - ((- a) mod \<bar>b\<bar>) else a mod \<bar>b\<bar>)"

text \<open>Number to string, for integers: decimal digits, a minus sign when negative.\<close>

definition digitChar :: "nat \<Rightarrow> char" where
  "digitChar d = ''0123456789'' ! d"

fun showNat :: "nat \<Rightarrow> string" where
  "showNat n = (if n < 10 then [digitChar n] else showNat (n div 10) @ [digitChar (n mod 10)])"

declare showNat.simps [simp del]

definition showInt :: "int \<Rightarrow> string" where
  "showInt i = (if i < 0 then CHR ''-'' # showNat (nat (- i)) else showNat (nat i))"

section \<open>The route helpers (backend/routes/slots.js)\<close>

text \<open>
  \<^verbatim>\<open>
  const convertTo12Hour = (time24) => {
    const [hours, minutes] = time24.split(':');
    const hourNum = parseInt(hours, 10);
    const period = hourNum >= 12 ? 'PM' : 'AM';
    const hour12 = hourNum % 12 || 12;
    return `${hour12}:${minutes} ${period}`;
  };
  \<close>
  A comparison with \<open>NaN\<close> is false; \<open>NaN % 12\<close> and \<open>Infinity % 12\<close> are \<open>NaN\<close>,
  which is falsy as 0 is.
\<close>

definition convertTo12Hour :: "string \<Rightarrow> string" where
  "convertTo12Hour time24 =
     (let parts = split_on CHR '':'' time24;
          hours = nth_opt parts 0;
          minutes = nth_opt parts 1;
          hourNum = (case hours of Some h \<Rightarrow> parseInt10 h | None \<Rightarrow> NaN);
          period = (case hourNum of
                      Num n \<Rightarrow> if n \<ge> 12 then ''PM'' else ''AM''
                    | PosInfinity \<Rightarrow> ''PM''
                    | _ \<Rightarrow> ''AM'');
          hour12 = (case hourNum of
                      Num n \<Rightarrow> if jsRem n 12 = 0 then 12 else jsRem n 12
                    | _ \<Rightarrow> 12)
      in showInt hour12 @ '':'' @ (case minutes of Some m \<Rightarrow> m | None \<Rightarrow> ''undefined'')
           @ '' '' @ period)"

section \<open>JavaScript dates\<close>

text \<open>
  A \<open>Date\<close> is its time value, the milliseconds since the epoch in UTC, or
  \<open>None\<close> for an Invalid Date (time value \<open>NaN\<close>). The day and year arithmetic
  is ECMAScript's: \<open>Day\<close>, \<open>DayFromYear\<close>, \<open>YearFromTime\<close>, \<open>MonthFromTime\<close>,
  \<open>DateFromTime\<close>, \<open>MakeDay\<close>, \<open>MakeDate\<close> and \<open>TimeClip\<close>.
\<close>

type_synonym jsdate = "int option"

definition msPerDay :: int where
  "msPerDay = 86400000"

definition Day :: "int \<Rightarrow> int" where
  "Day t = t div msPerDay"

definition TimeWithinDay :: "int \<Rightarrow> int" where
  "TimeWithinDay t = t mod msPerDay"

definition DayFromYear :: "int \<Rightarrow> int" where
  "DayFromYear y =
     365 * (y - 1970) + (y - 1969) div 4 - (y - 1901) div 100 + (y - 1601) div 400"

definition InLeapYear :: "int \<Rightarrow> int" where
  "InLeapYear y = (if y mod 4 = 0 \<and> (y mod 100 \<noteq> 0 \<or> y mod 400 = 0) then 1 else 0)"

text \<open>
  The year of a day number: the largest \<open>y\<close> whose first day is not after it. The
  estimate from the mean year length is off by at most one, and is checked against
  \<open>DayFromYear\<close>.
\<close>

definition YearFromDay :: "int \<Rightarrow> int" where
  "YearFromDay d =
     (let e = 1970 + (400 * d) div 146097
      in if DayFromYear (e + 1) \<le> d then e + 1
         else if DayFromYear e \<le> d then e
         else e - 1)"

definition YearFromTime :: "int \<Rightarrow> int" where
  "YearFromTime t = YearFromDay (Day t)"

definition DayWithinYear :: "int \<Rightarrow> int" where
  "DayWithinYear t = Day t - DayFromYear (YearFromTime t)"

text \<open>The day within the year on which month \<open>m\<close> (0 to 11) starts.\<close>

definition monthStart :: "int \<Rightarrow> int \<Rightarrow> int" where
  "monthStart leap m =
     (if m = 0 then 0 else if m = 1 then 31 else if m = 2 then 59 + leap
      else if m = 3 then 90 + leap else if m = 4 then 120 + leap
      else if m = 5 then 151 + leap else if m = 6 then 181 + leap
      else if m = 7 then 212 + leap else if m = 8 then 243 + leap
      else if m = 9 then 273 + leap else if m = 10 then 304 + leap
      else 334 + leap)"

definition MonthFromTime :: "int \<Rightarrow> int" where
  "MonthFromTime t =
     (let leap = InLeapYear (YearFromTime t); d = DayWithinYear t
      in if d < 31 then 0 else if d < 59 + leap then 1 else if d < 90 + leap then 2
         else if d < 120 + leap then 3 else if d < 151 + leap then 4
         else if d < 181 + leap then 5 else if d < 212 + leap then 6
         else if d < 243 + leap then 7 else if d < 273 + leap then 8
         else if d < 304 + leap then 9 else if d < 334 + leap then 10
         else 11)"

definition DateFromTime :: "int \<Rightarrow> int" where
  "DateFromTime t =
     DayWithinYear t + 1 - monthStart (InLeapYear (YearFromTime t)) (MonthFromTime t)"

definition MakeDay :: "int \<Rightarrow> int \<Rightarrow> int \<Rightarrow> int" where
  "MakeDay year month dt =
     (let ym = year + month div 12; mn = month mod 12
      in DayFromYear ym + monthStart (InLeapYear ym) mn + dt - 1)"

definition MakeDate :: "int \<Rightarrow> int \<Rightarrow> int" where
  "MakeDate day time = day * msPerDay + time"

definition TimeClip :: "int \<Rightarrow> jsdate" where
  "TimeClip t = (if \<bar>t\<bar> > 8640000000000000 then None else Some t)"

text \<open>\<open>getUTCFullYear\<close>, \<open>getUTCMonth\<close>, \<open>getUTCDate\<close>: \<open>NaN\<close> on an Invalid Date.\<close>

definition getUTCFullYear :: "jsdate \<Rightarrow> int option" where
  "getUTCFullYear date = map_option YearFromTime date"

definition getUTCMonth :: "jsdate \<Rightarrow> int option" where
  "getUTCMonth date = map_option MonthFromTime date"

definition getUTCDate :: "jsdate \<Rightarrow> int option" where
  "getUTCDate date = map_option DateFromTime date"

text \<open>
  \<open>Date.UTC(year, month, date)\<close>: \<open>NaN\<close> if an argument is; a year from 0 to 99 stands
  for 1900 plus that year; the time of day is 0.
\<close>

definition Date_UTC :: "int option \<Rightarrow> int option \<Rightarrow> int option \<Rightarrow> jsdate" where
  "Date_UTC year month dt =
     (case (year, month, dt) of
        (Some y, Some m, Some d) \<Rightarrow>
          (let yr = (if 0 \<le> y \<and> y \<le> 99 then 1900 + y else y)
           in TimeClip (MakeDate (MakeDay yr m d) 0))
      | _ \<Rightarrow> None)"

text \<open>\<open>s.padStart(n, '0')\<close>.\<close>

definition padStart0 :: "nat \<Rightarrow> string \<Rightarrow> string" where
  "padStart0 n s = replicate (n - length s) CHR ''0'' @ s"

text \<open>
  \<open>toISOString\<close> of a valid date: \<open>YYYY-MM-DDTHH:mm:ss.sssZ\<close>, the year with a sign and
  six digits when it is outside 0 to 9999.
\<close>

definition toISOString :: "int \<Rightarrow> string" where
  "toISOString t =
     (let y = YearFromTime t;
          w = TimeWithinDay t;
          year = (if 0 \<le> y \<and> y \<le> 9999 then padStart0 4 (showNat (nat y))
                  else (if y < 0 then CHR ''-'' else CHR ''+'') # padStart0 6 (showNat (nat \<bar>y\<bar>)))
      in year @ ''-'' @ padStart0 2 (showNat (nat (MonthFromTime t + 1)))
           @ ''-'' @ padStart0 2 (showNat (nat (DateFromTime t)))
           @ ''T'' @ padStart0 2 (showNat (nat (w div 3600000)))
           @ '':'' @ padStart0 2 (showNat (nat (w div 60000 mod 60)))
           @ '':'' @ padStart0 2 (showNat (nat (w div 1000 mod 60)))
           @ ''.'' @ padStart0 3 (showNat (nat (w mod 1000))) @ ''Z'')"

text \<open>
  An ObjectId is modelled by its canonical text (24 lower-case hexadecimal digits in
  the driver), so that two spellings of one identifier are one value.
\<close>

type_synonym objectId = string

text \<open>
  What the engine and the database driver supply: \<open>Date.parse\<close> on a string (the time
  value, or \<open>None\<close> for \<open>NaN\<close>; the formats beyond ISO 8601 are the engine's choice), and
  the cast of a string to an ObjectId (\<open>None\<close> when the string does not cast).
\<close>

record runtime =
  Date_parse :: "string \<Rightarrow> int option"
  castObjectId :: "string \<Rightarrow> objectId option"

text \<open>
  \<^verbatim>\<open>
  const normalizeDate = (dateStr) => {
    const date = new Date(dateStr);
    return new Date(Date.UTC(date.getUTCFullYear(), date.getUTCMonth(), date.getUTCDate()));
  };
  \<close>
\<close>

definition normalizeDate :: "runtime \<Rightarrow> string \<Rightarrow> jsdate" where
  "normalizeDate rt dateStr =
     (let date = Date_parse rt dateStr
      in Date_UTC (getUTCFullYear date) (getUTCMonth date) (getUTCDate date))"

section \<open>The Slot schema (models/Slot.js)\<close>

text \<open>
  Regular expressions, as far as the schema's pattern needs them. \<open>rests r s\<close> lists
  what can remain of \<open>s\<close> after a match of \<open>r\<close> at its start, in the order in which
  a backtracking matcher tries them.
\<close>

datatype regex =
    Chr char
  | Range char char
  | Alt regex regex
  | Seq regex regex
  | Opt regex

fun rests :: "regex \<Rightarrow> string \<Rightarrow> string list" where
  "rests (Chr c) s = (case s of x # xs \<Rightarrow> if x = c then [xs] else [] | [] \<Rightarrow> [])"
| "rests (Range a b) s =
     (case s of
        x # xs \<Rightarrow> if (of_char a :: nat) \<le> of_char x \<and> (of_char x :: nat) \<le> of_char b
                  then [xs] else []
      | [] \<Rightarrow> [])"
| "rests (Alt p q) s = rests p s @ rests q s"
| "rests (Seq p q) s = concat (map (rests q) (rests p s))"
| "rests (Opt p) s = rests p s @ [s]"

text \<open>\<open>/^r$/.test(s)\<close>: the pattern is anchored at both ends.\<close>

definition test_anchored :: "regex \<Rightarrow> string \<Rightarrow> bool" where
  "test_anchored r s = ([] \<in> set (rests r s))"

text \<open>\<^verbatim>\<open>/^((1[0-2]|0?[1-9]):([0-5][0-9]) ?([AP]M))$/\<close>\<close>

definition timePattern :: regex where
  "timePattern =
     Seq (Alt (Seq (Chr CHR ''1'') (Range CHR ''0'' CHR ''2''))
              (Seq (Opt (Chr CHR ''0'')) (Range CHR ''1'' CHR ''9'')))
      (Seq (Chr CHR '':'')
      (Seq (Seq (Range CHR ''0'' CHR ''5'') (Range CHR ''0'' CHR ''9''))
      (Seq (Opt (Chr CHR '' ''))
           (Seq (Alt (Chr CHR ''A'') (Chr CHR ''P'')) (Chr CHR ''M'')))))"

definition matchesTime12 :: "string \<Rightarrow> bool" where
  "matchesTime12 s = test_anchored timePattern s"

text \<open>\<open>s.trim()\<close>, the setter of the schema's \<open>trim: true\<close>.\<close>

definition trim :: "string \<Rightarrow> string" where
  "trim s = rev (dropWhile isWhiteSpace (rev (dropWhile isWhiteSpace s)))"

datatype status = Available | Booked

record booking =
  name :: string
  enrollment :: string
  email :: string
  bookedAt :: int

text \<open>
  A slot document. \<open>date\<close> is \<open>None\<close> while the path is unset, \<open>eventId\<close> and
  \<open>createdBy\<close> are empty while theirs is; \<open>bookedBy\<close> is \<open>None\<close> while the document
  has no such sub-record. The timestamps kept by \<open>timestamps: true\<close> are not part of
  the model.
\<close>

record slot =
  eventId :: objectId
  date :: "int option"
  startTime :: string
  endTime :: string
  purpose :: string
  status :: status
  bookedBy :: "booking option"
  createdBy :: objectId

text \<open>
  The validators that \<open>save\<close> runs, on every path of the document: \<open>required\<close> (a
  string path must be non-empty) and \<open>match\<close> on the two times. The \<open>enum\<close> of the
  status is the type \<^typ>\<open>status\<close>. The required \<open>eventId\<close> is unset only after a
  cast that failed, which rejects the document by itself.
\<close>

definition schemaValid :: "slot \<Rightarrow> bool" where
  "schemaValid s =
     (date s \<noteq> None
      \<and> startTime s \<noteq> [] \<and> matchesTime12 (startTime s)
      \<and> endTime s \<noteq> [] \<and> matchesTime12 (endTime s)
      \<and> purpose s \<noteq> [])"

text \<open>
  A document in memory: its content, and whether a value assigned to a path failed to
  cast (the path keeps its old value and \<open>save\<close> will reject the document).
\<close>

record doc =
  content :: slot
  castError :: bool

text \<open>Assigning a \<open>Date\<close> to the \<open>date\<close> path: an Invalid Date does not cast.\<close>

definition set_date :: "jsdate \<Rightarrow> doc \<Rightarrow> doc" where
  "set_date v d =
     (case v of
        Some t \<Rightarrow> d\<lparr>content := (content d)\<lparr>date := Some t\<rparr>\<rparr>
      | None \<Rightarrow> d\<lparr>castError := True\<rparr>)"

definition set_purpose :: "string \<Rightarrow> doc \<Rightarrow> doc" where
  "set_purpose v d = d\<lparr>content := (content d)\<lparr>purpose := trim v\<rparr>\<rparr>"

text \<open>Assigning the cast of a string to an ObjectId path.\<close>

definition set_eventId :: "objectId option \<Rightarrow> doc \<Rightarrow> doc" where
  "set_eventId v d =
     (case v of
        Some k \<Rightarrow> d\<lparr>content := (content d)\<lparr>eventId := k\<rparr>\<rparr>
      | None \<Rightarrow> d\<lparr>castError := True\<rparr>)"

definition set_createdBy :: "objectId option \<Rightarrow> doc \<Rightarrow> doc" where
  "set_createdBy v d =
     (case v of
        Some k \<Rightarrow> d\<lparr>content := (content d)\<lparr>createdBy := k\<rparr>\<rparr>
      | None \<Rightarrow> d\<lparr>castError := True\<rparr>)"

text \<open>\<open>toJSON\<close> of the schema, with the event filled in by \<open>populate('eventId')\<close>.\<close>

datatype event = Event string

record slotJSON =
  j_id :: objectId
  j_eventId :: "event option"
  j_date :: string
  j_startTime :: string
  j_endTime :: string
  j_purpose :: string
  j_status :: status
  j_bookedBy :: "booking option"
  j_createdBy :: objectId

datatype error = CastErrorObjectId | ValidationError | DuplicateKey | TypeError

text \<open>
  \<^verbatim>\<open>
  slotSchema.methods.toJSON = function () {
    const slot = this.toObject();
    slot.date = this.date.toISOString().split('T')[0];
    return slot;
  };
  \<close>
\<close>

definition toJSON :: "objectId \<Rightarrow> event option \<Rightarrow> slot \<Rightarrow> error + slotJSON" where
  "toJSON i ev s =
     (case date s of
        None \<Rightarrow> Inl TypeError
      | Some t \<Rightarrow>
          Inr \<lparr>j_id = i, j_eventId = ev,
               j_date = (case nth_opt (split_on CHR ''T'' (toISOString t)) 0 of
                           Some x \<Rightarrow> x | None \<Rightarrow> ''undefined''),
               j_startTime = startTime s, j_endTime = endTime s, j_purpose = purpose s,
               j_status = status s, j_bookedBy = bookedBy s, j_createdBy = createdBy s\<rparr>)"

section \<open>The document store\<close>

text \<open>
  The two collections, keyed by ObjectId. Events are kept by another part of the
  application; a slot refers to one by \<open>eventId\<close>.
\<close>

record store =
  slots :: "objectId \<rightharpoonup> slot"
  events :: "objectId \<rightharpoonup> event"

text \<open>
  \<open>Model.findById(id)\<close> on the text of a request: the text is cast to an ObjectId, and
  a text that does not cast raises a CastError of kind ObjectId. The document found
  comes with its \<open>_id\<close>.
\<close>

definition findById ::
  "runtime \<Rightarrow> (objectId \<rightharpoonup> 'a) \<Rightarrow> string \<Rightarrow> error + (objectId \<times> 'a) option" where
  "findById rt coll i =
     (case castObjectId rt i of
        None \<Rightarrow> Inl CastErrorObjectId
      | Some k \<Rightarrow> Inr (map_option (Pair k) (coll k)))"

text \<open>\<open>doc.save()\<close> of a loaded document: validate, then write it back under its \<open>_id\<close>.\<close>

definition save :: "objectId \<Rightarrow> doc \<Rightarrow> store \<Rightarrow> error + store" where
  "save i d st =
     (if castError d \<or> \<not> schemaValid (content d) then Inl ValidationError
      else Inr (st\<lparr>slots := (slots st)(i \<mapsto> content d)\<rparr>))"

text \<open>\<open>doc.save()\<close> of a new document: validate, then insert it under its fresh identifier.\<close>

definition save_new :: "objectId \<Rightarrow> doc \<Rightarrow> store \<Rightarrow> error + store" where
  "save_new i d st =
     (if castError d \<or> \<not> schemaValid (content d) then Inl ValidationError
      else if slots st i \<noteq> None then Inl DuplicateKey
      else Inr (st\<lparr>slots := (slots st)(i \<mapsto> content d)\<rparr>))"

section \<open>The route handlers (backend/routes/slots.js)\<close>

text \<open>
  A field of a JSON request body is its text, or \<open>None\<close> when the body has no such
  field. \<open>!field\<close> holds for a missing field and for the empty string.
\<close>

definition truthy :: "string option \<Rightarrow> bool" where
  "truthy f = (case f of Some s \<Rightarrow> s \<noteq> [] | None \<Rightarrow> False)"

datatype payload = Message string | ServerError error | SlotOut slotJSON | Null

datatype response = Response nat payload

text \<open>
  \<open>res.status(code).json(await Slot.findById(slot._id).populate('eventId'))\<close>, where
  \<open>slot._id\<close> is an ObjectId already; an exception of \<open>toJSON\<close> is caught by the
  handler and answered with 500.
\<close>

definition send_slot :: "nat \<Rightarrow> store \<Rightarrow> objectId \<Rightarrow> response" where
  "send_slot code st i =
     (case slots st i of
        None \<Rightarrow> Response code Null
      | Some s \<Rightarrow>
          (case toJSON i (events st (eventId s)) s of
             Inl e \<Rightarrow> Response 500 (ServerError e)
           | Inr j \<Rightarrow> Response code (SlotOut j)))"

text \<open>The \<open>catch\<close> of the handlers addressed by a slot identifier.\<close>

definition catch_ObjectId :: "error \<Rightarrow> response" where
  "catch_ObjectId e =
     (if e = CastErrorObjectId then Response 404 (Message ''Slot not found'')
      else Response 500 (ServerError e))"

record create_body =
  req_eventId :: "string option"
  req_date :: "string option"
  req_startTime :: "string option"
  req_endTime :: "string option"
  req_purpose :: "string option"

text \<open>
  \<open>new Slot({eventId, date, startTime, endTime, purpose, status: 'available', createdBy})\<close>:
  every value goes through its path's cast and setter.
\<close>

definition new_Slot ::
  "runtime \<Rightarrow> string \<Rightarrow> jsdate \<Rightarrow> string \<Rightarrow> string \<Rightarrow> string \<Rightarrow> string \<Rightarrow> doc" where
  "new_Slot rt ev dt st en pu cr =
     set_createdBy (castObjectId rt cr) (set_purpose pu (set_date dt
       (set_eventId (castObjectId rt ev)
         \<lparr>content = \<lparr>eventId = [], date = None, startTime = st, endTime = en,
                     purpose = [], status = Available, bookedBy = None, createdBy = []\<rparr>,
          castError = False\<rparr>)))"

text \<open>
  \<open>router.post('/', adminAuth, ...)\<close>. \<open>newId\<close> is the ObjectId the driver generates
  for the new document, \<open>user\<close> is \<open>req.user.id\<close> as the middleware supplies it.
\<close>

definition post_create ::
  "runtime \<Rightarrow> objectId \<Rightarrow> string \<Rightarrow> store \<Rightarrow> create_body \<Rightarrow> response \<times> store" where
  "post_create rt newId user st b =
     (if \<not> truthy (req_eventId b) \<or> \<not> truthy (req_date b) \<or> \<not> truthy (req_startTime b)
         \<or> \<not> truthy (req_endTime b) \<or> \<not> truthy (req_purpose b)
      then (Response 400 (Message ''All fields are required''), st)
      else
        (case findById rt (events st) (the (req_eventId b)) of
           Inl e \<Rightarrow> (Response 500 (ServerError e), st)
         | Inr None \<Rightarrow> (Response 404 (Message ''Event not found''), st)
         | Inr (Some event) \<Rightarrow>
             (let dt = normalizeDate rt (the (req_date b));
                  startTime = convertTo12Hour (the (req_startTime b));
                  endTime = convertTo12Hour (the (req_endTime b));
                  slot = new_Slot rt (the (req_eventId b)) dt startTime endTime
                           (the (req_purpose b)) user
              in case save_new newId slot st of
                   Inl e \<Rightarrow> (Response 500 (ServerError e), st)
                 | Inr st' \<Rightarrow> (send_slot 201 st' newId, st'))))"

record update_body =
  upd_date :: "string option"
  upd_startTime :: "string option"
  upd_endTime :: "string option"
  upd_purpose :: "string option"

text \<open>\<open>if (field) slot.path = f(field);\<close>\<close>

definition when_truthy :: "string option \<Rightarrow> (string \<Rightarrow> doc \<Rightarrow> doc) \<Rightarrow> doc \<Rightarrow> doc" where
  "when_truthy f g d = (case f of Some s \<Rightarrow> if s = [] then d else g s d | None \<Rightarrow> d)"

definition set_startTime :: "string \<Rightarrow> doc \<Rightarrow> doc" where
  "set_startTime v d = d\<lparr>content := (content d)\<lparr>startTime := v\<rparr>\<rparr>"

definition set_endTime :: "string \<Rightarrow> doc \<Rightarrow> doc" where
  "set_endTime v d = d\<lparr>content := (content d)\<lparr>endTime := v\<rparr>\<rparr>"

text \<open>The four guarded assignments of the update handler, in the order of the source.\<close>

definition apply_update :: "runtime \<Rightarrow> update_body \<Rightarrow> doc \<Rightarrow> doc" where
  "apply_update rt b d =
     when_truthy (upd_purpose b) set_purpose
       (when_truthy (upd_endTime b) (\<lambda>v. set_endTime (convertTo12Hour v))
         (when_truthy (upd_startTime b) (\<lambda>v. set_startTime (convertTo12Hour v))
           (when_truthy (upd_date b) (\<lambda>v. set_date (normalizeDate rt v)) d)))"

text \<open>\<open>router.put('/:id', adminAuth, ...)\<close>\<close>

definition put_update ::
  "runtime \<Rightarrow> store \<Rightarrow> string \<Rightarrow> update_body \<Rightarrow> response \<times> store" where
  "put_update rt st i b =
     (case findById rt (slots st) i of
        Inl e \<Rightarrow> (catch_ObjectId e, st)
      | Inr None \<Rightarrow> (Response 404 (Message ''Slot not found''), st)
      | Inr (Some (k, s)) \<Rightarrow>
          (case save k (apply_update rt b \<lparr>content = s, castError = False\<rparr>) st of
             Inl e \<Rightarrow> (catch_ObjectId e, st)
           | Inr st' \<Rightarrow> (send_slot 200 st' k, st')))"

text \<open>\<open>router.delete('/:id', adminAuth, ...)\<close>\<close>

definition delete_slot :: "runtime \<Rightarrow> store \<Rightarrow> string \<Rightarrow> response \<times> store" where
  "delete_slot rt st i =
     (case findById rt (slots st) i of
        Inl e \<Rightarrow> (catch_ObjectId e, st)
      | Inr None \<Rightarrow> (Response 404 (Message ''Slot not found''), st)
      | Inr (Some (k, s)) \<Rightarrow>
          (Response 200 (Message ''Slot removed successfully''),
           st\<lparr>slots := (slots st)(k := None)\<rparr>))"

record book_body =
  req_name :: "string option"
  req_email :: "string option"
  req_enrollment :: "string option"

text \<open>
  \<open>router.post('/:id/book', ...)\<close>. \<open>now\<close> is the value of \<open>Date.now()\<close>; the three
  texts pass the \<open>trim\<close> setters of the \<open>bookedBy\<close> paths.
\<close>

definition post_book ::
  "runtime \<Rightarrow> int \<Rightarrow> store \<Rightarrow> string \<Rightarrow> book_body \<Rightarrow> response \<times> store" where
  "post_book rt now st i b =
     (if \<not> truthy (req_name b) \<or> \<not> truthy (req_email b) \<or> \<not> truthy (req_enrollment b)
      then (Response 400 (Message ''All fields are required''), st)
      else
        (case findById rt (slots st) i of
           Inl e \<Rightarrow> (catch_ObjectId e, st)
         | Inr None \<Rightarrow> (Response 404 (Message ''Slot not found''), st)
         | Inr (Some (k, s)) \<Rightarrow>
             if status s \<noteq> Available
             then (Response 400 (Message ''Slot is not available''), st)
             else
               (case save k \<lparr>content = s\<lparr>status := Booked,
                                 bookedBy := Some \<lparr>name = trim (the (req_name b)),
                                                   enrollment = trim (the (req_enrollment b)),
                                                   email = trim (the (req_email b)),
                                                   bookedAt = now\<rparr>\<rparr>,
                              castError = False\<rparr> st of
                  Inl e \<Rightarrow> (catch_ObjectId e, st)
                | Inr st' \<Rightarrow> (send_slot 200 st' k, st'))))"

text \<open>\<open>router.put('/:id/cancel', adminAuth, ...)\<close>\<close>

definition put_cancel :: "runtime \<Rightarrow> store \<Rightarrow> string \<Rightarrow> response \<times> store" where
  "put_cancel rt st i =
     (case findById rt (slots st) i of
        Inl e \<Rightarrow> (catch_ObjectId e, st)
      | Inr None \<Rightarrow> (Response 404 (Message ''Slot not found''), st)
      | Inr (Some (k, s)) \<Rightarrow>
          if status s \<noteq> Booked
          then (Response 400 (Message ''Slot is not booked''), st)
          else
            (case save k \<lparr>content = s\<lparr>status := Available, bookedBy := None\<rparr>,
                           castError = False\<rparr> st of
               Inl e \<Rightarrow> (catch_ObjectId e, st)
             | Inr st' \<Rightarrow> (send_slot 200 st' k, st')))"

section \<open>Reachable stores\<close>

text \<open>
  The stores the service can be in: the slot collection starts empty and changes only
  through the handlers; the event collection is another component's and may change at
  any time.
\<close>

inductive reachable :: "runtime \<Rightarrow> store \<Rightarrow> bool" for rt :: runtime where
  r_init: "slots st = Map.empty \<Longrightarrow> reachable rt st"
| r_events: "reachable rt st \<Longrightarrow> reachable rt (st\<lparr>events := ev\<rparr>)"
| r_create: "reachable rt st \<Longrightarrow> reachable rt (snd (post_create rt newId user st cb))"
| r_update: "reachable rt st \<Longrightarrow> reachable rt (snd (put_update rt st i ub))"
| r_delete: "reachable rt st \<Longrightarrow> reachable rt (snd (delete_slot rt st i))"
| r_book: "reachable rt st \<Longrightarrow> reachable rt (snd (post_book rt now st i bb))"
| r_cancel: "reachable rt st \<Longrightarrow> reachable rt (snd (put_cancel rt st i))"

section \<open>A runtime and a store for the examples\<close>

text \<open>
  \<open>Date.parse\<close> on the date-only form \<open>YYYY-MM-DD\<close> of the ECMAScript date-time format,
  which is read as UTC midnight of that day. Every other string is \<open>NaN\<close> here; an engine
  accepts more.
\<close>

definition parseIsoDate :: "string \<Rightarrow> int option" where
  "parseIsoDate s =
     (case s of
        [y1, y2, y3, y4, a, m1, m2, b, d1, d2] \<Rightarrow>
          (let y = digitsVal [y1, y2, y3, y4];
               m = digitsVal [m1, m2];
               d = digitsVal [d1, d2]
           in if list_all isDigit [y1, y2, y3, y4, m1, m2, d1, d2]
                 \<and> a = CHR ''-'' \<and> b = CHR ''-'' \<and> 1 \<le> m \<and> m \<le> 12 \<and> 1 \<le> d
                 \<and> d \<le> monthStart (InLeapYear y) m - monthStart (InLeapYear y) (m - 1)
                       + (if m = 12 then 31 else 0)
              then Some (MakeDate (MakeDay y (m - 1) d) 0)
              else None)
      | _ \<Rightarrow> None)"

text \<open>
  The cast of the driver on texts of 24 hexadecimal digits: the digits in lower case.
  Every other text does not cast here.
\<close>

definition hex24 :: "string \<Rightarrow> bool" where
  "hex24 s = (length s = 24 \<and> list_all (\<lambda>c. c \<in> set ''0123456789abcdefABCDEF'') s)"

definition lowerHex :: "char \<Rightarrow> char" where
  "lowerHex c =
     (if c = CHR ''A'' then CHR ''a'' else if c = CHR ''B'' then CHR ''b''
      else if c = CHR ''C'' then CHR ''c'' else if c = CHR ''D'' then CHR ''d''
      else if c = CHR ''E'' then CHR ''e'' else if c = CHR ''F'' then CHR ''f'' else c)"

definition castHex24 :: "string \<Rightarrow> objectId option" where
  "castHex24 s = (if hex24 s then Some (map lowerHex s) else None)"

definition rt0 :: runtime where
  "rt0 = \<lparr>Date_parse = parseIsoDate, castObjectId = castHex24\<rparr>"

definition E1 :: string where
  "E1 = ''65e100000000000000000001''"

definition S1 :: string where
  "S1 = ''65e1000000000000000000a1''"

text \<open>The same identifier, spelled in upper case.\<close>

definition S1_upper :: string where
  "S1_upper = ''65E1000000000000000000A1''"

definition U1 :: string where
  "U1 = ''65e1000000000000000000f1''"

definition st0 :: store where
  "st0 = \<lparr>slots = Map.empty, events = [E1 \<mapsto> Event ''Open day'']\<rparr>"

definition advising :: create_body where
  "advising = \<lparr>req_eventId = Some E1, req_date = Some ''2024-03-01'',
               req_startTime = Some ''14:30'', req_endTime = Some ''15:00'',
               req_purpose = Some ''Advising''\<rparr>"

definition st1 :: store where
  "st1 = snd (post_create rt0 S1 U1 st0 advising)"

definition bob :: book_body where
  "bob = \<lparr>req_name = Some '' Bob'', req_email = Some ''bob@example.org'',
          req_enrollment = Some ''E42''\<rparr>"

definition st2 :: store where
  "st2 = snd (post_book rt0 1709300000000 st1 S1 bob)"

text \<open>The slot that the request \<open>advising\<close> creates, and the slot after the booking.\<close>

definition slot1 :: slot where
  "slot1 = \<lparr>eventId = E1, date = Some 1709251200000, startTime = ''2:30 PM'',
            endTime = ''3:00 PM'', purpose = ''Advising'', status = Available,
            bookedBy = None, createdBy = U1\<rparr>"

definition json1 :: slotJSON where
  "json1 = \<lparr>j_id = S1, j_eventId = Some (Event ''Open day''), j_date = ''2024-03-01'',
            j_startTime = ''2:30 PM'', j_endTime = ''3:00 PM'', j_purpose = ''Advising'',
            j_status = Available, j_bookedBy = None, j_createdBy = U1\<rparr>"

definition slot2 :: slot where
  "slot2 = slot1\<lparr>status := Booked,
                  bookedBy := Some \<lparr>name = ''Bob'', enrollment = ''E42'',
                                    email = ''bob@example.org'',
                                    bookedAt = 1709300000000\<rparr>\<rparr>"

definition slot3 :: slot where
  "slot3 = slot1\<lparr>startTime := ''9:05 AM'', purpose := ''Review''\<rparr>"

text \<open>Update requests: a time already in the 12-hour form, a time with 75 minutes, a
  well-formed change, and a body whose fields are empty or missing.\<close>

definition ub_12h :: update_body where
  "ub_12h = \<lparr>upd_date = None, upd_startTime = Some ''4:00 PM'', upd_endTime = None,
             upd_purpose = None\<rparr>"

definition ub_bad :: update_body where
  "ub_bad = \<lparr>upd_date = None, upd_startTime = Some ''14:75'', upd_endTime = None,
             upd_purpose = None\<rparr>"

definition ub_ok :: update_body where
  "ub_ok = \<lparr>upd_date = Some ''2024-03-01'', upd_startTime = Some ''09:05'',
            upd_endTime = None, upd_purpose = Some '' Review ''\<rparr>"

definition ub_empty :: update_body where
  "ub_empty = \<lparr>upd_date = Some [], upd_startTime = Some [], upd_endTime = None,
               upd_purpose = Some []\<rparr>"

section \<open>Properties of the time conversion\<close>

lemma split_on_none: "c \<notin> set xs \<Longrightarrow> split_on c xs = [xs]"
  by (induction xs) auto

lemma split_on_first: "c \<notin> set xs \<Longrightarrow> split_on c (xs @ c # ys) = xs # split_on c ys"
  by (induction xs) auto

lemma digit_not_ws: "isDigit c \<Longrightarrow> \<not> isWhiteSpace c"
  by (auto simp: isDigit_def isWhiteSpace_def)

lemma digit_not_sign:
  "isDigit c \<Longrightarrow> c \<noteq> CHR ''-'' \<and> c \<noteq> CHR ''+'' \<and> c \<noteq> CHR '':''"
  by (auto simp: isDigit_def)

lemma digits_fold_nonneg:
  "\<forall>c\<in>set ds. isDigit c \<Longrightarrow> 0 \<le> a \<Longrightarrow> 0 \<le> foldl (\<lambda>a c. 10 * a + digitVal c) a ds"
proof (induction ds arbitrary: a)
  case Nil
  then show ?case by simp
next
  case (Cons c ds)
  have n: "48 \<le> (of_char c :: nat)" using Cons.prems(1) by (simp add: isDigit_def)
  have "(of_char c :: int) = int (of_char c)" by (simp add: of_nat_of_char)
  then have "0 \<le> digitVal c" using n unfolding digitVal_def by linarith
  then have "0 \<le> 10 * a + digitVal c" using Cons.prems(2) by simp
  then show ?case using Cons.IH Cons.prems(1) by simp
qed

lemma digitsVal_nonneg: "\<forall>c\<in>set ds. isDigit c \<Longrightarrow> 0 \<le> digitsVal ds"
  unfolding digitsVal_def by (rule digits_fold_nonneg) simp_all

lemma parseInt10_digits:
  assumes "hs \<noteq> []" "\<forall>c\<in>set hs. isDigit c" "digitsVal hs < 9007199254740992"
  shows "parseInt10 hs = Num (digitsVal hs)"
proof -
  obtain c r where hs: "hs = c # r" using assms(1) by (cases hs) auto
  have c: "isDigit c" using assms(2) hs by simp
  have tw: "takeWhile isDigit hs = hs" using assms(2) by simp
  have dw: "dropWhile isWhiteSpace hs = hs" using c hs digit_not_ws by simp
  have u: "(case hs of c # r \<Rightarrow> if c = CHR ''-'' \<or> c = CHR ''+'' then r else hs | [] \<Rightarrow> hs) = hs"
    using hs digit_not_sign[OF c] by simp
  have neg: "(case hs of c # r \<Rightarrow> c = CHR ''-'' | [] \<Rightarrow> False) = False"
    using hs digit_not_sign[OF c] by simp
  have d: "toDouble (digitsVal hs) = Some (digitsVal hs)"
    using assms(3) by (simp add: toDouble_def)
  show ?thesis
    unfolding parseInt10_def Let_def dw u neg tw using assms(1) by (simp add: d)
qed

lemma convertTo12Hour_shape:
  assumes "hs \<noteq> []" "\<forall>c\<in>set hs. isDigit c" "digitsVal hs < 9007199254740992"
    and "CHR '':'' \<notin> set mm"
  shows "convertTo12Hour (hs @ '':'' @ mm) =
           showInt (if digitsVal hs mod 12 = 0 then 12 else digitsVal hs mod 12)
             @ '':'' @ mm @ '' '' @ (if 12 \<le> digitsVal hs then ''PM'' else ''AM'')"
proof -
  have nc: "CHR '':'' \<notin> set hs" using assms(2) digit_not_sign by blast
  have sp: "split_on CHR '':'' (hs @ '':'' @ mm) = [hs, mm]"
    using split_on_first[OF nc, of mm] split_on_none[OF assms(4)] by simp
  have rem: "jsRem (digitsVal hs) 12 = digitsVal hs mod 12"
    using digitsVal_nonneg[OF assms(2)] by (simp add: jsRem_def)
  show ?thesis
    unfolding convertTo12Hour_def sp Let_def
    by (simp add: parseInt10_digits[OF assms(1,2,3)] rem)
qed

lemmas time_eval =
  convertTo12Hour_def parseInt10_def toDouble_def isWhiteSpace_def isDigit_def digitsVal_def
  digitVal_def jsRem_def showInt_def showNat.simps digitChar_def

text \<open>
  C1. For a time \<open>H:MM\<close> whose hour field \<open>hs\<close> is a run of decimal digits with a value
  from 0 to 23 and whose minute field \<open>mm\<close> has no colon, \<open>convertTo12Hour\<close> returns the
  hour modulo 12 (12 when that is 0), a colon, the minute field as it came, a space, and
  \<open>PM\<close> when the hour is at least 12, \<open>AM\<close> otherwise. \<open>14:30\<close> becomes \<open>2:30 PM\<close> and
  \<open>15:00\<close> becomes \<open>3:00 PM\<close>.
\<close>

theorem convertTo12Hour_24h:
  assumes "hs \<noteq> []" and "\<forall>c\<in>set hs. isDigit c" and "digitsVal hs < 24"
    and "CHR '':'' \<notin> set mm"
  shows "convertTo12Hour (hs @ '':'' @ mm) =
           showInt (if digitsVal hs mod 12 = 0 then 12 else digitsVal hs mod 12)
             @ '':'' @ mm @ '' '' @ (if 12 \<le> digitsVal hs then ''PM'' else ''AM'')
         \<and> convertTo12Hour ''14:30'' = ''2:30 PM''
         \<and> convertTo12Hour ''15:00'' = ''3:00 PM''"
proof -
  have ex: "convertTo12Hour ''14:30'' = ''2:30 PM''" "convertTo12Hour ''15:00'' = ''3:00 PM''"
    by (simp_all add: time_eval)
  have b: "digitsVal hs < 9007199254740992" using assms(3) by simp
  show ?thesis
    using convertTo12Hour_shape[OF assms(1,2) b assms(4)] ex by simp
qed

theorem convertTo12Hour_24h_witness:
  "list_all isDigit ''09'' \<and> digitsVal ''09'' < 24 \<and> CHR '':'' \<notin> set ''05''
   \<and> convertTo12Hour ''09:05'' = ''9:05 AM''
   \<and> list_all isDigit ''00'' \<and> convertTo12Hour ''00:59'' = ''12:59 AM''
   \<and> list_all isDigit ''23'' \<and> convertTo12Hour ''23:00'' = ''11:00 PM''"
proof -
  have d: "list_all isDigit ''09''" "list_all isDigit ''00''" "list_all isDigit ''23''"
    by (simp_all add: isDigit_def)
  have v: "digitsVal ''09'' = 9" "digitsVal ''00'' = 0" "digitsVal ''23'' = 23"
    by (simp_all add: digitsVal_def digitVal_def)
  have s: "showInt 9 = ''9''" "showInt 12 = ''12''" "showInt 11 = ''11''"
    by (simp_all add: showInt_def showNat.simps digitChar_def)
  have a: "convertTo12Hour ''09:05'' = ''9:05 AM''"
    using convertTo12Hour_24h[of "''09''" "''05''"] d v s by (simp add: list_all_iff)
  have b: "convertTo12Hour ''00:59'' = ''12:59 AM''"
    using convertTo12Hour_24h[of "''00''" "''59''"] d v s by (simp add: list_all_iff)
  have c: "convertTo12Hour ''23:00'' = ''11:00 PM''"
    using convertTo12Hour_24h[of "''23''" "''00''"] d v s by (simp add: list_all_iff)
  show ?thesis using a b c d v by simp
qed

text \<open>
  C2. A time that is already in the 12-hour form is converted again: the hour is
  read up to the colon, everything after the colon is kept as the minutes, and a second
  period is appended. \<open>2:30 PM\<close>, which the schema's pattern accepts, becomes
  \<open>2:30 PM AM\<close>, which it rejects; so converting the result of \<open>14:30\<close> once more does
  not give the same string back.
\<close>

theorem convertTo12Hour_twice:
  "matchesTime12 ''2:30 PM''
   \<and> convertTo12Hour ''2:30 PM'' = ''2:30 PM AM''
   \<and> convertTo12Hour ''14:30'' = ''2:30 PM''
   \<and> convertTo12Hour (convertTo12Hour ''14:30'') \<noteq> convertTo12Hour ''14:30''
   \<and> \<not> matchesTime12 (convertTo12Hour ''2:30 PM'')"
proof -
  have a: "convertTo12Hour ''14:30'' = ''2:30 PM''" by (simp add: time_eval)
  have b: "convertTo12Hour ''2:30 PM'' = ''2:30 PM AM''" by (simp add: time_eval)
  have c: "matchesTime12 ''2:30 PM''" "\<not> matchesTime12 ''2:30 PM AM''"
    by (simp_all add: matchesTime12_def test_anchored_def timePattern_def)
  show ?thesis using c by (simp add: a b)
qed

text \<open>
  An hour field beyond \<open>2 ^ 53\<close> is rounded to a double before the remainder is taken,
  and one beyond the doubles is \<open>Infinity\<close>.
\<close>

lemma convertTo12Hour_rounded:
  "convertTo12Hour ''9007199254740993:00'' = ''8:00 PM''"
proof -
  have v: "digitsVal ''9007199254740993'' = 9007199254740993"
    by (simp add: digitsVal_def digitVal_def)
  have b: "bitLength 9007199254740993 = 54"
    by (simp add: bitLength.simps)
  have d: "toDouble 9007199254740993 = Some 9007199254740992"
    by (simp add: toDouble_def b Let_def)
  have p: "parseInt10 ''9007199254740993'' = Num 9007199254740992"
    by (simp add: parseInt10_def isWhiteSpace_def isDigit_def v d)
  show ?thesis
    by (simp add: convertTo12Hour_def p jsRem_def showInt_def showNat.simps digitChar_def)
qed

section \<open>Properties of the date arithmetic\<close>

lemma div_bounds:
  fixes x k :: int
  assumes "0 < k"
  shows "k * (x div k) \<le> x" "x < k * (x div k) + k"
proof -
  have e: "x = k * (x div k) + x mod k" by simp
  have "0 \<le> x mod k" "x mod k < k" using assms by simp_all
  then show "k * (x div k) \<le> x" "x < k * (x div k) + k" using e by linarith+
qed

lemma year_estimate:
  "DayFromYear (1969 + (400 * d) div 146097) \<le> d"
  "d < DayFromYear (1972 + (400 * d) div 146097)"
proof -
  define q where "q = (400 * d) div 146097"
  have q: "146097 * q \<le> 400 * d" "400 * d < 146097 * q + 146097"
    unfolding q_def using div_bounds[of 146097 "400 * d"] by simp_all
  define a b c where "a = q div 4" and "b = (q + 68) div 100" and "c = (q + 368) div 400"
  have abc: "4 * a \<le> q" "q + 68 < 100 * b + 100" "400 * c \<le> q + 368"
    unfolding a_def b_def c_def
    using div_bounds[of 4 q] div_bounds[of 100 "q + 68"] div_bounds[of 400 "q + 368"]
    by simp_all
  have "DayFromYear (1969 + q) = 365 * (q - 1) + a - b + c"
    by (simp add: DayFromYear_def a_def b_def c_def add.commute)
  moreover have "400 * (365 * (q - 1) + a - b + c) \<le> 146097 * q"
    using abc by (simp add: algebra_simps)
  ultimately have "DayFromYear (1969 + q) \<le> d" using q(1) by simp
  then show "DayFromYear (1969 + (400 * d) div 146097) \<le> d" by (simp add: q_def)
  define a' b' c' where "a' = (q + 3) div 4" and "b' = (q + 71) div 100"
    and "c' = (q + 371) div 400"
  have abc': "q + 3 < 4 * a' + 4" "100 * b' \<le> q + 71" "q + 371 < 400 * c' + 400"
    unfolding a'_def b'_def c'_def
    using div_bounds[of 4 "q + 3"] div_bounds[of 100 "q + 71"] div_bounds[of 400 "q + 371"]
    by simp_all
  have "DayFromYear (1972 + q) = 365 * (q + 2) + a' - b' + c'"
    by (simp add: DayFromYear_def a'_def b'_def c'_def add.commute)
  moreover have "146097 * q + 146097 \<le> 400 * (365 * (q + 2) + a' - b' + c')"
    using abc' by (simp add: algebra_simps)
  ultimately have "d < DayFromYear (1972 + q)" using q(2) by simp
  then show "d < DayFromYear (1972 + (400 * d) div 146097)" by (simp add: q_def)
qed

text \<open>\<open>YearFromDay\<close> is the year ECMAScript defines: the day lies within it.\<close>

lemma YearFromDay_spec:
  "DayFromYear (YearFromDay d) \<le> d \<and> d < DayFromYear (YearFromDay d + 1)"
proof -
  define e where "e = 1970 + (400 * d) div 146097"
  have lo: "DayFromYear (e - 1) \<le> d" and hi: "d < DayFromYear (e + 2)"
    using year_estimate[of d] by (simp_all add: e_def)
  have y: "YearFromDay d = (if DayFromYear (e + 1) \<le> d then e + 1
                             else if DayFromYear e \<le> d then e else e - 1)"
    by (simp add: YearFromDay_def e_def Let_def)
  show ?thesis
  proof (cases "DayFromYear (e + 1) \<le> d")
    case True
    then show ?thesis using hi y by (simp add: add.commute)
  next
    case f1: False
    show ?thesis
    proof (cases "DayFromYear e \<le> d")
      case True
      then show ?thesis using f1 y by simp
    next
      case False
      then show ?thesis using f1 y lo by simp
    qed
  qed
qed

lemma MonthFromTime_range: "0 \<le> MonthFromTime t \<and> MonthFromTime t \<le> 11"
  by (simp add: MonthFromTime_def Let_def)

lemma MakeDay_inverse:
  "MakeDay (YearFromTime t) (MonthFromTime t) (DateFromTime t) = Day t"
proof -
  have m: "MonthFromTime t div 12 = 0" "MonthFromTime t mod 12 = MonthFromTime t"
    using MonthFromTime_range[of t] by simp_all
  show ?thesis
    by (simp add: MakeDay_def m DateFromTime_def DayWithinYear_def)
qed

text \<open>
  Outside the years 0 to 99, \<open>normalizeDate\<close> gives UTC midnight of the day of the
  parsed time value; in those years \<open>Date.UTC\<close> moves the date by 1900 years.
\<close>

lemma normalizeDate_day:
  assumes "Date_parse rt s = Some t" and "\<bar>t\<bar> \<le> 8640000000000000"
    and "YearFromTime t < 0 \<or> 99 < YearFromTime t"
  shows "normalizeDate rt s = Some (Day t * msPerDay)"
proof -
  have up: "t div 86400000 * 86400000 \<le> t"
    using div_mult_mod_eq[of t 86400000] pos_mod_sign[of 86400000 t] by linarith
  have "(- 8640000000000000) div 86400000 \<le> t div (86400000 :: int)"
    by (rule zdiv_mono1) (use assms(2) in simp_all)
  then have lo: "- 100000000 \<le> t div 86400000" by simp
  have "- 8640000000000000 \<le> Day t * msPerDay \<and> Day t * msPerDay \<le> 8640000000000000"
    using assms(2) up lo unfolding Day_def msPerDay_def by linarith
  then have "\<bar>Day t * msPerDay\<bar> \<le> 8640000000000000"
    by (simp add: abs_le_iff)
  then have c: "TimeClip (Day t * msPerDay) = Some (Day t * msPerDay)"
    by (simp add: TimeClip_def)
  have y: "(if 0 \<le> YearFromTime t \<and> YearFromTime t \<le> 99 then 1900 + YearFromTime t
            else YearFromTime t) = YearFromTime t"
    using assms(3) by auto
  show ?thesis
    by (simp add: normalizeDate_def assms(1) getUTCFullYear_def getUTCMonth_def
        getUTCDate_def Date_UTC_def y MakeDay_inverse MakeDate_def c)
qed

lemma normalizeDate_two_digit_year:
  assumes "Date_parse rt s = Some t" and "0 \<le> YearFromTime t" and "YearFromTime t \<le> 99"
  shows "normalizeDate rt s =
           TimeClip (MakeDay (1900 + YearFromTime t) (MonthFromTime t) (DateFromTime t)
                       * msPerDay)"
  using assms(2,3)
  by (simp add: normalizeDate_def assms(1) getUTCFullYear_def getUTCMonth_def
        getUTCDate_def Date_UTC_def MakeDate_def)

section \<open>Properties of the documents and the store\<close>

lemma findById_none:
  "castObjectId rt i = None \<Longrightarrow> findById rt coll i = Inl CastErrorObjectId"
  by (simp add: findById_def)

lemma findById_absent:
  "castObjectId rt i = Some k \<Longrightarrow> coll k = None \<Longrightarrow> findById rt coll i = Inr None"
  by (simp add: findById_def)

lemma find_slot:
  "castObjectId rt i = Some k \<Longrightarrow> slots st k = Some s
     \<Longrightarrow> findById rt (slots st) i = Inr (Some (k, s))"
  by (simp add: findById_def)

lemma find_event:
  "castObjectId rt i = Some k \<Longrightarrow> events st k = Some e
     \<Longrightarrow> findById rt (events st) i = Inr (Some (k, e))"
  by (simp add: findById_def)

lemma toJSON_valid:
  assumes "schemaValid s"
  shows "\<exists>j. toJSON i ev s = Inr j \<and> j_id j = i \<and> j_eventId j = ev
     \<and> j_startTime j = startTime s \<and> j_endTime j = endTime s \<and> j_purpose j = purpose s
     \<and> j_status j = status s \<and> j_bookedBy j = bookedBy s \<and> j_createdBy j = createdBy s"
  using assms by (auto simp: schemaValid_def toJSON_def)

lemma send_slot_valid:
  assumes "slots st i = Some s" "toJSON i (events st (eventId s)) s = Inr j"
  shows "send_slot code st i = Response code (SlotOut j)"
  using assms by (simp add: send_slot_def)

lemma save_cases:
  "save i d st = Inl ValidationError \<and> (castError d \<or> \<not> schemaValid (content d))
   \<or> save i d st = Inr (st\<lparr>slots := (slots st)(i \<mapsto> content d)\<rparr>)
       \<and> \<not> castError d \<and> schemaValid (content d)"
  by (simp add: save_def)

lemma store_write_same:
  "slots st i = Some s \<Longrightarrow> st\<lparr>slots := (slots st)(i \<mapsto> s)\<rparr> = st"
  by (simp add: map_upd_triv)

lemma schemaValid_status [simp]:
  "schemaValid (s\<lparr>status := x\<rparr>) = schemaValid s"
  "schemaValid (s\<lparr>bookedBy := y\<rparr>) = schemaValid s"
  by (simp_all add: schemaValid_def)

lemma when_truthy_eq:
  "when_truthy f g d = (if truthy f then g (the f) d else d)"
  by (cases f) (auto simp: when_truthy_def truthy_def)

lemma apply_update_frame:
  "eventId (content (apply_update rt b d)) = eventId (content d)"
  "status (content (apply_update rt b d)) = status (content d)"
  "bookedBy (content (apply_update rt b d)) = bookedBy (content d)"
  "createdBy (content (apply_update rt b d)) = createdBy (content d)"
  by (simp_all add: apply_update_def when_truthy_eq set_purpose_def set_endTime_def
        set_startTime_def set_date_def split: option.splits)

lemma apply_update_fields:
  "startTime (content (apply_update rt b d)) =
     (if truthy (upd_startTime b) then convertTo12Hour (the (upd_startTime b))
      else startTime (content d))"
  "endTime (content (apply_update rt b d)) =
     (if truthy (upd_endTime b) then convertTo12Hour (the (upd_endTime b))
      else endTime (content d))"
  "purpose (content (apply_update rt b d)) =
     (if truthy (upd_purpose b) then trim (the (upd_purpose b)) else purpose (content d))"
  "date (content (apply_update rt b d)) =
     (if truthy (upd_date b) \<and> normalizeDate rt (the (upd_date b)) \<noteq> None
      then normalizeDate rt (the (upd_date b)) else date (content d))"
  "castError (apply_update rt b d) =
     (castError d \<or> truthy (upd_date b) \<and> normalizeDate rt (the (upd_date b)) = None)"
  by (auto simp add: apply_update_def when_truthy_eq set_purpose_def set_endTime_def
        set_startTime_def set_date_def split: option.splits)

lemma apply_update_content:
  "content (apply_update rt ub \<lparr>content = s, castError = False\<rparr>) =
     s\<lparr>date := (if truthy (upd_date ub) \<and> normalizeDate rt (the (upd_date ub)) \<noteq> None
                 then normalizeDate rt (the (upd_date ub)) else date s),
       startTime := (if truthy (upd_startTime ub) then convertTo12Hour (the (upd_startTime ub))
                     else startTime s),
       endTime := (if truthy (upd_endTime ub) then convertTo12Hour (the (upd_endTime ub))
                   else endTime s),
       purpose := (if truthy (upd_purpose ub) then trim (the (upd_purpose ub))
                   else purpose s)\<rparr>"
  by (rule slot.equality) (auto simp add: apply_update_fields apply_update_frame)

lemma apply_update_empty:
  "apply_update rt (ub\<lparr>upd_date := Some []\<rparr>) d = apply_update rt (ub\<lparr>upd_date := None\<rparr>) d"
  "apply_update rt (ub\<lparr>upd_startTime := Some []\<rparr>) d
     = apply_update rt (ub\<lparr>upd_startTime := None\<rparr>) d"
  "apply_update rt (ub\<lparr>upd_endTime := Some []\<rparr>) d
     = apply_update rt (ub\<lparr>upd_endTime := None\<rparr>) d"
  "apply_update rt (ub\<lparr>upd_purpose := Some []\<rparr>) d
     = apply_update rt (ub\<lparr>upd_purpose := None\<rparr>) d"
  by (simp_all add: apply_update_def when_truthy_def)

text \<open>The document that \<open>new Slot\<close> builds when both identifiers cast and the date is valid.\<close>

lemma new_Slot_ok:
  assumes "castObjectId rt ev = Some ek" "castObjectId rt cr = Some ck"
  shows "new_Slot rt ev (Some t) st en pu cr =
           \<lparr>content = \<lparr>eventId = ek, date = Some t, startTime = st, endTime = en,
                       purpose = trim pu, status = Available, bookedBy = None,
                       createdBy = ck\<rparr>,
            castError = False\<rparr>"
  by (simp add: new_Slot_def assms set_createdBy_def set_purpose_def set_date_def set_eventId_def)

lemma new_Slot_fields:
  "date (content (new_Slot rt ev dt st en pu cr)) = dt"
  "startTime (content (new_Slot rt ev dt st en pu cr)) = st"
  "endTime (content (new_Slot rt ev dt st en pu cr)) = en"
  "purpose (content (new_Slot rt ev dt st en pu cr)) = trim pu"
  "status (content (new_Slot rt ev dt st en pu cr)) = Available"
  "bookedBy (content (new_Slot rt ev dt st en pu cr)) = None"
  "castError (new_Slot rt ev dt st en pu cr) =
     (castObjectId rt ev = None \<or> castObjectId rt cr = None \<or> dt = None)"
  by (auto simp: new_Slot_def set_createdBy_def set_purpose_def set_date_def set_eventId_def
        split: option.splits)

text \<open>What each handler can do to the store, and with which answer.\<close>

lemma post_create_cases:
  assumes "post_create rt newId user st b = (r, st')"
  shows "(st' = st \<and> (\<forall>p. r \<noteq> Response 201 p))
       \<or> (\<exists>s j. s = content (new_Slot rt (the (req_eventId b))
                      (normalizeDate rt (the (req_date b)))
                      (convertTo12Hour (the (req_startTime b)))
                      (convertTo12Hour (the (req_endTime b)))
                      (the (req_purpose b)) user)
            \<and> truthy (req_eventId b) \<and> truthy (req_date b) \<and> truthy (req_startTime b)
            \<and> truthy (req_endTime b) \<and> truthy (req_purpose b)
            \<and> schemaValid s \<and> slots st newId = None
            \<and> st' = st\<lparr>slots := (slots st)(newId \<mapsto> s)\<rparr>
            \<and> toJSON newId (events st (eventId s)) s = Inr j
            \<and> r = Response 201 (SlotOut j))"
proof (cases "truthy (req_eventId b) \<and> truthy (req_date b) \<and> truthy (req_startTime b)
            \<and> truthy (req_endTime b) \<and> truthy (req_purpose b)")
  case False
  then show ?thesis using assms by (auto simp: post_create_def)
next
  case tr: True
  let ?d = "new_Slot rt (the (req_eventId b)) (normalizeDate rt (the (req_date b)))
              (convertTo12Hour (the (req_startTime b))) (convertTo12Hour (the (req_endTime b)))
              (the (req_purpose b)) user"
  let ?st = "st\<lparr>slots := (slots st)(newId \<mapsto> content ?d)\<rparr>"
  show ?thesis
  proof (cases "findById rt (events st) (the (req_eventId b))")
    case (Inl e)
    then show ?thesis using assms tr by (auto simp: post_create_def)
  next
    case (Inr eo)
    show ?thesis
    proof (cases eo)
      case None
      then show ?thesis using assms tr Inr by (auto simp: post_create_def)
    next
      case (Some ev)
      show ?thesis
      proof (cases "save_new newId ?d st")
        case (Inl e)
        then show ?thesis using assms tr Inr Some by (auto simp: post_create_def Let_def)
      next
        case ok: (Inr st2)
        then have v: "schemaValid (content ?d)" "slots st newId = None" "st2 = ?st"
          by (auto simp: save_new_def split: if_splits)
        obtain j where j: "toJSON newId (events st (eventId (content ?d))) (content ?d) = Inr j"
          using toJSON_valid[OF v(1)] by blast
        have sl: "slots ?st newId = Some (content ?d)" by simp
        have "send_slot 201 ?st newId = Response 201 (SlotOut j)"
          by (rule send_slot_valid[OF sl]) (simp add: j)
        then have "r = Response 201 (SlotOut j)" "st' = ?st"
          using assms tr Inr Some ok v(3) by (auto simp: post_create_def Let_def)
        then show ?thesis using tr v j by blast
      qed
    qed
  qed
qed

lemma put_update_cases:
  assumes "put_update rt st i b = (r, st')"
  shows "(st' = st \<and> (\<forall>p. r \<noteq> Response 200 p))
       \<or> (\<exists>k s s' j. castObjectId rt i = Some k \<and> slots st k = Some s
            \<and> s' = content (apply_update rt b \<lparr>content = s, castError = False\<rparr>)
            \<and> \<not> castError (apply_update rt b \<lparr>content = s, castError = False\<rparr>)
            \<and> schemaValid s'
            \<and> st' = st\<lparr>slots := (slots st)(k \<mapsto> s')\<rparr>
            \<and> toJSON k (events st (eventId s)) s' = Inr j
            \<and> r = Response 200 (SlotOut j))"
proof (cases "castObjectId rt i")
  case None
  then show ?thesis using assms
    by (auto simp: put_update_def findById_none catch_ObjectId_def)
next
  case oid: (Some k)
  show ?thesis
  proof (cases "slots st k")
    case None
    then show ?thesis using assms by (auto simp: put_update_def findById_absent[where coll = "slots st", OF oid])
  next
    case (Some s)
    note f = find_slot[OF oid Some]
    let ?d = "apply_update rt b \<lparr>content = s, castError = False\<rparr>"
    let ?st = "st\<lparr>slots := (slots st)(k \<mapsto> content ?d)\<rparr>"
    from save_cases[of k ?d st] show ?thesis
    proof
      assume "save k ?d st = Inl ValidationError \<and> (castError ?d \<or> \<not> schemaValid (content ?d))"
      then show ?thesis using assms
        by (auto simp: put_update_def f catch_ObjectId_def)
    next
      assume ok: "save k ?d st = Inr ?st \<and> \<not> castError ?d \<and> schemaValid (content ?d)"
      obtain j where j: "toJSON k (events st (eventId (content ?d))) (content ?d) = Inr j"
        using toJSON_valid ok by blast
      have sl: "slots ?st k = Some (content ?d)" by simp
      have "send_slot 200 ?st k = Response 200 (SlotOut j)"
        by (rule send_slot_valid[OF sl]) (simp add: j)
      then have "r = Response 200 (SlotOut j)" "st' = ?st"
        using assms ok by (auto simp: put_update_def f)
      then show ?thesis using Some oid ok j by (auto simp: apply_update_frame)
    qed
  qed
qed

lemma post_book_cases:
  assumes "post_book rt now st i b = (r, st')"
  shows "(st' = st \<and> (\<forall>p. r \<noteq> Response 200 p))
       \<or> (\<exists>k s s' j. castObjectId rt i = Some k \<and> slots st k = Some s \<and> status s = Available
            \<and> truthy (req_name b) \<and> truthy (req_email b) \<and> truthy (req_enrollment b)
            \<and> s' = s\<lparr>status := Booked,
                      bookedBy := Some \<lparr>name = trim (the (req_name b)),
                                        enrollment = trim (the (req_enrollment b)),
                                        email = trim (the (req_email b)),
                                        bookedAt = now\<rparr>\<rparr>
            \<and> schemaValid s
            \<and> st' = st\<lparr>slots := (slots st)(k \<mapsto> s')\<rparr>
            \<and> toJSON k (events st (eventId s)) s' = Inr j
            \<and> r = Response 200 (SlotOut j))"
proof (cases "truthy (req_name b) \<and> truthy (req_email b) \<and> truthy (req_enrollment b)")
  case False
  then show ?thesis using assms by (auto simp: post_book_def)
next
  case tr: True
  show ?thesis
  proof (cases "castObjectId rt i")
    case None
    then show ?thesis using assms tr
      by (auto simp: post_book_def findById_none catch_ObjectId_def)
  next
    case oid: (Some k)
    show ?thesis
    proof (cases "slots st k")
      case None
      then show ?thesis using assms tr by (auto simp: post_book_def findById_absent[where coll = "slots st", OF oid])
    next
      case (Some s)
      note f = find_slot[OF oid Some]
      let ?s = "s\<lparr>status := Booked,
                   bookedBy := Some \<lparr>name = trim (the (req_name b)),
                                     enrollment = trim (the (req_enrollment b)),
                                     email = trim (the (req_email b)),
                                     bookedAt = now\<rparr>\<rparr>"
      let ?d = "\<lparr>content = ?s, castError = False\<rparr>"
      let ?st = "st\<lparr>slots := (slots st)(k \<mapsto> ?s)\<rparr>"
      show ?thesis
      proof (cases "status s = Available")
        case False
        then show ?thesis using assms tr by (auto simp: post_book_def f)
      next
        case av: True
        from save_cases[of k ?d st] show ?thesis
        proof
          assume "save k ?d st = Inl ValidationError
                    \<and> (castError ?d \<or> \<not> schemaValid (content ?d))"
          then show ?thesis using assms tr av
            by (auto simp: post_book_def f catch_ObjectId_def)
        next
          assume ok: "save k ?d st = Inr (st\<lparr>slots := (slots st)(k \<mapsto> content ?d)\<rparr>)
                       \<and> \<not> castError ?d \<and> schemaValid (content ?d)"
          then have sv: "save k ?d st = Inr ?st" "schemaValid ?s" by simp_all
          obtain j where j: "toJSON k (events st (eventId s)) ?s = Inr j"
            using toJSON_valid[OF sv(2)] by blast
          have sl: "slots ?st k = Some ?s" by simp
          have "send_slot 200 ?st k = Response 200 (SlotOut j)"
            by (rule send_slot_valid[OF sl]) (simp add: j)
          then have "r = Response 200 (SlotOut j)" "st' = ?st"
            using assms tr av sv(1) by (auto simp: post_book_def f)
          then show ?thesis using Some oid tr av sv(2) j by auto
        qed
      qed
    qed
  qed
qed

lemma put_cancel_cases:
  assumes "put_cancel rt st i = (r, st')"
  shows "(st' = st \<and> (\<forall>p. r \<noteq> Response 200 p))
       \<or> (\<exists>k s s' j. castObjectId rt i = Some k \<and> slots st k = Some s \<and> status s = Booked
            \<and> s' = s\<lparr>status := Available, bookedBy := None\<rparr>
            \<and> schemaValid s
            \<and> st' = st\<lparr>slots := (slots st)(k \<mapsto> s')\<rparr>
            \<and> toJSON k (events st (eventId s)) s' = Inr j
            \<and> r = Response 200 (SlotOut j))"
proof (cases "castObjectId rt i")
  case None
  then show ?thesis using assms
    by (auto simp: put_cancel_def findById_none catch_ObjectId_def)
next
  case oid: (Some k)
  show ?thesis
  proof (cases "slots st k")
    case None
    then show ?thesis using assms by (auto simp: put_cancel_def findById_absent[where coll = "slots st", OF oid])
  next
    case (Some s)
    note f = find_slot[OF oid Some]
    let ?s = "s\<lparr>status := Available, bookedBy := None\<rparr>"
    let ?d = "\<lparr>content = ?s, castError = False\<rparr>"
    let ?st = "st\<lparr>slots := (slots st)(k \<mapsto> ?s)\<rparr>"
    show ?thesis
    proof (cases "status s = Booked")
      case False
      then show ?thesis using assms by (auto simp: put_cancel_def f)
    next
      case bk: True
      from save_cases[of k ?d st] show ?thesis
      proof
        assume "save k ?d st = Inl ValidationError
                  \<and> (castError ?d \<or> \<not> schemaValid (content ?d))"
        then show ?thesis using assms bk
          by (auto simp: put_cancel_def f catch_ObjectId_def)
      next
        assume ok: "save k ?d st = Inr (st\<lparr>slots := (slots st)(k \<mapsto> content ?d)\<rparr>)
                     \<and> \<not> castError ?d \<and> schemaValid (content ?d)"
        then have sv: "save k ?d st = Inr ?st" "schemaValid ?s" by simp_all
        obtain j where j: "toJSON k (events st (eventId s)) ?s = Inr j"
          using toJSON_valid[OF sv(2)] by blast
        have sl: "slots ?st k = Some ?s" by simp
        have "send_slot 200 ?st k = Response 200 (SlotOut j)"
          by (rule send_slot_valid[OF sl]) (simp add: j)
        then have "r = Response 200 (SlotOut j)" "st' = ?st"
          using assms bk sv(1) by (auto simp: put_cancel_def f)
        then show ?thesis using Some oid bk sv(2) j by auto
      qed
    qed
  qed
qed

lemma delete_slot_cases:
  "snd (delete_slot rt st i) = st
   \<or> (\<exists>k. snd (delete_slot rt st i) = st\<lparr>slots := (slots st)(k := None)\<rparr>)"
  by (auto simp: delete_slot_def findById_def split: option.splits)

text \<open>
  Every slot of a reachable store passed the schema's validators, and has a booking
  exactly when it is booked.
\<close>

lemma inv_step:
  assumes "\<And>i s. slots st i = Some s \<Longrightarrow> P s"
    and "st' = st \<or> (\<exists>k s'. P s' \<and> st' = st\<lparr>slots := (slots st)(k \<mapsto> s')\<rparr>)"
    and "slots st' i = Some s"
  shows "P s"
  using assms by (auto split: if_splits)

lemma reachable_inv:
  assumes "reachable rt st"
  shows "slots st i = Some s \<Longrightarrow>
           schemaValid s \<and> ((bookedBy s \<noteq> None) = (status s = Booked))"
  using assms
proof (induction arbitrary: i s rule: reachable.induct)
  case (r_init st)
  then show ?case by simp
next
  case (r_events st ev)
  then show ?case by simp
next
  case (r_create st newId user cb)
  let ?P = "\<lambda>s. schemaValid s \<and> ((bookedBy s \<noteq> None) = (status s = Booked))"
  obtain r st' where e: "post_create rt newId user st cb = (r, st')"
    by (cases "post_create rt newId user st cb")
  have "st' = st \<or> (\<exists>k s'. ?P s' \<and> st' = st\<lparr>slots := (slots st)(k \<mapsto> s')\<rparr>)"
    using post_create_cases[OF e]
  proof (elim disjE exE conjE)
    fix s1 j
    assume a: "s1 = content (new_Slot rt (the (req_eventId cb))
                      (normalizeDate rt (the (req_date cb)))
                      (convertTo12Hour (the (req_startTime cb)))
                      (convertTo12Hour (the (req_endTime cb)))
                      (the (req_purpose cb)) user)"
      "schemaValid s1" "st' = st\<lparr>slots := (slots st)(newId \<mapsto> s1)\<rparr>"
    have "?P s1" using a(1,2) by (simp add: new_Slot_fields)
    then show ?thesis using a(3) by blast
  qed simp
  then show ?case
    using inv_step[where P = ?P, OF r_create.IH] r_create.prems e by simp
next
  case (r_update st k ub)
  let ?P = "\<lambda>s. schemaValid s \<and> ((bookedBy s \<noteq> None) = (status s = Booked))"
  obtain r st' where e: "put_update rt st k ub = (r, st')"
    by (cases "put_update rt st k ub")
  have "st' = st \<or> (\<exists>k s'. ?P s' \<and> st' = st\<lparr>slots := (slots st)(k \<mapsto> s')\<rparr>)"
    using put_update_cases[OF e]
  proof (elim disjE exE conjE)
    fix k0 s0 s1 j
    assume a: "slots st k0 = Some s0"
      "s1 = content (apply_update rt ub \<lparr>content = s0, castError = False\<rparr>)"
      "schemaValid s1" "st' = st\<lparr>slots := (slots st)(k0 \<mapsto> s1)\<rparr>"
    have "?P s1" using r_update.IH[OF a(1)] a(2,3) by (simp add: apply_update_frame)
    then show ?thesis using a(4) by blast
  qed simp
  then show ?case
    using inv_step[where P = ?P, OF r_update.IH] r_update.prems e by simp
next
  case (r_delete st k)
  have "slots st i = Some s"
    using delete_slot_cases[of rt st k] r_delete.prems by (auto split: if_splits)
  then show ?case by (rule r_delete.IH)
next
  case (r_book st now k bb)
  let ?P = "\<lambda>s. schemaValid s \<and> ((bookedBy s \<noteq> None) = (status s = Booked))"
  obtain r st' where e: "post_book rt now st k bb = (r, st')"
    by (cases "post_book rt now st k bb")
  have "st' = st \<or> (\<exists>k s'. ?P s' \<and> st' = st\<lparr>slots := (slots st)(k \<mapsto> s')\<rparr>)"
    using post_book_cases[OF e]
  proof (elim disjE exE conjE)
    fix k0 s0 s1 j
    assume a: "s1 = s0\<lparr>status := Booked,
                      bookedBy := Some \<lparr>name = trim (the (req_name bb)),
                                        enrollment = trim (the (req_enrollment bb)),
                                        email = trim (the (req_email bb)),
                                        bookedAt = now\<rparr>\<rparr>"
      "schemaValid s0" "st' = st\<lparr>slots := (slots st)(k0 \<mapsto> s1)\<rparr>"
    have "?P s1" using a(1,2) by simp
    then show ?thesis using a(3) by blast
  qed simp
  then show ?case
    using inv_step[where P = ?P, OF r_book.IH] r_book.prems e by simp
next
  case (r_cancel st k)
  let ?P = "\<lambda>s. schemaValid s \<and> ((bookedBy s \<noteq> None) = (status s = Booked))"
  obtain r st' where e: "put_cancel rt st k = (r, st')"
    by (cases "put_cancel rt st k")
  have "st' = st \<or> (\<exists>k s'. ?P s' \<and> st' = st\<lparr>slots := (slots st)(k \<mapsto> s')\<rparr>)"
    using put_cancel_cases[OF e]
  proof (elim disjE exE conjE)
    fix k0 s0 s1 j
    assume a: "s1 = s0\<lparr>status := Available, bookedBy := None\<rparr>"
      "schemaValid s0" "st' = st\<lparr>slots := (slots st)(k0 \<mapsto> s1)\<rparr>"
    have "?P s1" using a(1,2) by simp
    then show ?thesis using a(3) by blast
  qed simp
  then show ?case
    using inv_step[where P = ?P, OF r_cancel.IH] r_cancel.prems e by simp
qed

text \<open>The handlers at a request that succeeds.\<close>

lemma matchesTime12_empty: "\<not> matchesTime12 []"
  by (simp add: matchesTime12_def test_anchored_def timePattern_def)

lemma matchesTime12_nonempty: "matchesTime12 x \<Longrightarrow> x \<noteq> []"
  using matchesTime12_empty by auto

lemma post_create_ok:
  assumes tr: "truthy (req_eventId cb)" "truthy (req_date cb)" "truthy (req_startTime cb)"
      "truthy (req_endTime cb)" "truthy (req_purpose cb)"
    and ev: "castObjectId rt (the (req_eventId cb)) = Some ek" "events st ek = Some e"
    and us: "castObjectId rt user = Some ck"
    and dt: "normalizeDate rt (the (req_date cb)) = Some t"
    and tm: "matchesTime12 (convertTo12Hour (the (req_startTime cb)))"
      "matchesTime12 (convertTo12Hour (the (req_endTime cb)))"
    and pu: "trim (the (req_purpose cb)) \<noteq> []"
    and fresh: "slots st newId = None"
    and s: "s = \<lparr>eventId = ek, date = Some t,
                 startTime = convertTo12Hour (the (req_startTime cb)),
                 endTime = convertTo12Hour (the (req_endTime cb)),
                 purpose = trim (the (req_purpose cb)), status = Available,
                 bookedBy = None, createdBy = ck\<rparr>"
  shows "\<exists>j. toJSON newId (Some e) s = Inr j
           \<and> post_create rt newId user st cb
               = (Response 201 (SlotOut j), st\<lparr>slots := (slots st)(newId \<mapsto> s)\<rparr>)"
proof -
  let ?st = "st\<lparr>slots := (slots st)(newId \<mapsto> s)\<rparr>"
  have v: "schemaValid s"
    using tm pu matchesTime12_nonempty by (simp add: s schemaValid_def)
  have f: "findById rt (events st) (the (req_eventId cb)) = Inr (Some (ek, e))"
    by (rule find_event[OF ev])
  have n: "new_Slot rt (the (req_eventId cb)) (Some t)
             (convertTo12Hour (the (req_startTime cb))) (convertTo12Hour (the (req_endTime cb)))
             (the (req_purpose cb)) user = \<lparr>content = s, castError = False\<rparr>"
    by (simp add: new_Slot_ok[OF ev(1) us] s)
  have sv: "save_new newId \<lparr>content = s, castError = False\<rparr> st = Inr ?st"
    using v fresh by (simp add: save_new_def)
  obtain j where j: "toJSON newId (Some e) s = Inr j"
    using toJSON_valid[OF v] by blast
  have sl: "slots ?st newId = Some s" by simp
  have es: "events ?st (eventId s) = Some e" using ev by (simp add: s)
  have ss: "send_slot 201 ?st newId = Response 201 (SlotOut j)"
    by (rule send_slot_valid[OF sl]) (simp only: es ev j)
  have "post_create rt newId user st cb = (Response 201 (SlotOut j), ?st)"
    using tr by (simp add: post_create_def f dt n sv ss)
  then show ?thesis using j by blast
qed

lemma post_book_ok:
  assumes tr: "truthy (req_name bb)" "truthy (req_email bb)" "truthy (req_enrollment bb)"
    and k: "castObjectId rt i = Some k" "slots st k = Some s"
    and av: "status s = Available"
    and v: "schemaValid s"
    and s': "s' = s\<lparr>status := Booked,
                    bookedBy := Some \<lparr>name = trim (the (req_name bb)),
                                      enrollment = trim (the (req_enrollment bb)),
                                      email = trim (the (req_email bb)),
                                      bookedAt = now\<rparr>\<rparr>"
  shows "\<exists>j. toJSON k (events st (eventId s)) s' = Inr j
           \<and> post_book rt now st i bb
               = (Response 200 (SlotOut j), st\<lparr>slots := (slots st)(k \<mapsto> s')\<rparr>)"
proof -
  let ?st = "st\<lparr>slots := (slots st)(k \<mapsto> s')\<rparr>"
  have v': "schemaValid s'" using v by (simp add: s')
  have f: "findById rt (slots st) i = Inr (Some (k, s))"
    by (rule find_slot[OF k])
  obtain j where j: "toJSON k (events st (eventId s)) s' = Inr j"
    using toJSON_valid[OF v'] by blast
  have sl: "slots ?st k = Some s'" by simp
  have es: "events ?st (eventId s') = events st (eventId s)" by (simp add: s')
  have ss: "send_slot 200 ?st k = Response 200 (SlotOut j)"
    by (rule send_slot_valid[OF sl]) (simp only: es j)
  have "post_book rt now st i bb = (Response 200 (SlotOut j), ?st)"
    using tr av v' ss unfolding s' by (simp add: post_book_def f save_def)
  then show ?thesis using j by blast
qed

lemma put_cancel_ok:
  assumes k: "castObjectId rt i = Some k" "slots st k = Some s"
    and bk: "status s = Booked"
    and v: "schemaValid s"
    and s': "s' = s\<lparr>status := Available, bookedBy := None\<rparr>"
  shows "\<exists>j. toJSON k (events st (eventId s)) s' = Inr j
           \<and> put_cancel rt st i
               = (Response 200 (SlotOut j), st\<lparr>slots := (slots st)(k \<mapsto> s')\<rparr>)"
proof -
  let ?st = "st\<lparr>slots := (slots st)(k \<mapsto> s')\<rparr>"
  have v': "schemaValid s'" using v by (simp add: s')
  have f: "findById rt (slots st) i = Inr (Some (k, s))"
    by (rule find_slot[OF k])
  obtain j where j: "toJSON k (events st (eventId s)) s' = Inr j"
    using toJSON_valid[OF v'] by blast
  have sl: "slots ?st k = Some s'" by simp
  have es: "events ?st (eventId s') = events st (eventId s)" by (simp add: s')
  have ss: "send_slot 200 ?st k = Response 200 (SlotOut j)"
    by (rule send_slot_valid[OF sl]) (simp only: es j)
  have "put_cancel rt st i = (Response 200 (SlotOut j), ?st)"
    using bk v' ss unfolding s' by (simp add: put_cancel_def f save_def)
  then show ?thesis using j by blast
qed

section \<open>The examples, evaluated\<close>

lemmas date_eval =
  msPerDay_def Day_def TimeWithinDay_def DayFromYear_def InLeapYear_def YearFromDay_def
  YearFromTime_def DayWithinYear_def monthStart_def MakeDay_def MakeDate_def TimeClip_def

lemma ids_rt0:
  "castObjectId rt0 E1 = Some E1" "castObjectId rt0 S1 = Some S1"
  "castObjectId rt0 U1 = Some U1" "castObjectId rt0 S1_upper = Some S1"
  by (simp_all add: rt0_def castHex24_def hex24_def lowerHex_def E1_def S1_def U1_def
        S1_upper_def)

lemma ids_distinct: "E1 \<noteq> S1" "S1 \<noteq> U1" "S1 \<noteq> []" "E1 \<noteq> []" "S1_upper \<noteq> S1"
  by (simp_all add: E1_def S1_def U1_def S1_upper_def)

lemma parse_2024: "Date_parse rt0 ''2024-03-01'' = Some 1709251200000"
  by (simp add: rt0_def parseIsoDate_def digitsVal_def digitVal_def isDigit_def date_eval)

lemma year_2024: "YearFromTime 1709251200000 = 2024"
  by (simp add: date_eval)

lemma month_2024: "MonthFromTime 1709251200000 = 2"
  by (simp add: MonthFromTime_def year_2024 DayWithinYear_def Day_def msPerDay_def
        DayFromYear_def InLeapYear_def)

lemma date_2024: "DateFromTime 1709251200000 = 1"
  by (simp add: DateFromTime_def month_2024 year_2024 DayWithinYear_def Day_def msPerDay_def
        DayFromYear_def InLeapYear_def monthStart_def)

lemma normalize_2024: "normalizeDate rt0 ''2024-03-01'' = Some 1709251200000"
  by (simp add: normalizeDate_def parse_2024 getUTCFullYear_def getUTCMonth_def getUTCDate_def
        year_2024 month_2024 date_2024 Date_UTC_def MakeDay_def MakeDate_def TimeClip_def
        DayFromYear_def InLeapYear_def monthStart_def msPerDay_def)

lemma showNat_small:
  "showNat 0 = ''0''" "showNat (Suc 0) = ''1''" "showNat 3 = ''3''" "showNat 6 = ''6''"
  "showNat 15 = ''15''" "showNat 1950 = ''1950''" "showNat 2024 = ''2024''"
  by (simp_all add: showNat.simps digitChar_def)

lemma padStart0_small:
  "padStart0 2 ''0'' = ''00''" "padStart0 3 ''0'' = ''000''" "padStart0 2 ''1'' = ''01''"
  "padStart0 2 ''3'' = ''03''" "padStart0 2 ''6'' = ''06''" "padStart0 2 ''15'' = ''15''"
  "padStart0 4 ''1950'' = ''1950''" "padStart0 4 ''2024'' = ''2024''"
  by (simp_all add: padStart0_def eval_nat_numeral)

lemma iso_2024: "toISOString 1709251200000 = ''2024-03-01T00:00:00.000Z''"
  by (simp add: toISOString_def year_2024 month_2024 date_2024 TimeWithinDay_def msPerDay_def
        showNat_small padStart0_small)

lemma conv_examples:
  "convertTo12Hour ''14:30'' = ''2:30 PM''" "convertTo12Hour ''15:00'' = ''3:00 PM''"
  "convertTo12Hour ''09:05'' = ''9:05 AM''" "convertTo12Hour ''4:00 PM'' = ''4:00 PM AM''"
  "convertTo12Hour ''14:75'' = ''2:75 PM''"
  by (simp_all add: time_eval)

lemma match_examples:
  "matchesTime12 ''2:30 PM''" "matchesTime12 ''3:00 PM''" "matchesTime12 ''9:05 AM''"
  "\<not> matchesTime12 ''4:00 PM AM''" "\<not> matchesTime12 ''2:75 PM''"
  by (simp_all add: matchesTime12_def test_anchored_def timePattern_def)

lemma trim_examples:
  "trim ''Advising'' = ''Advising''" "trim '' Review '' = ''Review''" "trim '' Bob'' = ''Bob''"
  "trim ''bob@example.org'' = ''bob@example.org''" "trim ''E42'' = ''E42''"
  by (simp_all add: trim_def isWhiteSpace_def)

lemma slot1_valid: "schemaValid slot1"
  by (simp add: schemaValid_def slot1_def match_examples)

lemma slot1_sel:
  "eventId slot1 = E1" "status slot1 = Available" "bookedBy slot1 = None"
  "startTime slot1 = ''2:30 PM''" "endTime slot1 = ''3:00 PM''" "purpose slot1 = ''Advising''"
  "date slot1 = Some 1709251200000" "createdBy slot1 = U1"
  by (simp_all add: slot1_def)

lemma toJSON_slot1: "toJSON S1 (Some (Event ''Open day'')) slot1 = Inr json1"
  by (simp add: toJSON_def slot1_def json1_def iso_2024)

lemma new_Slot_advising:
  "new_Slot rt0 E1 (Some 1709251200000) ''2:30 PM'' ''3:00 PM'' ''Advising'' U1
     = \<lparr>content = slot1, castError = False\<rparr>"
  by (simp add: new_Slot_ok[OF ids_rt0(1) ids_rt0(3)] trim_examples slot1_def)

lemma find_E1: "findById rt0 (events st0) E1 = Inr (Some (E1, Event ''Open day''))"
  by (rule find_event[OF ids_rt0(1)]) (simp add: st0_def)

lemma create_advising:
  "post_create rt0 S1 U1 st0 advising = (Response 201 (SlotOut json1), st0\<lparr>slots := [S1 \<mapsto> slot1]\<rparr>)"
proof -
  have sv: "save_new S1 \<lparr>content = slot1, castError = False\<rparr> st0 = Inr (st0\<lparr>slots := [S1 \<mapsto> slot1]\<rparr>)"
    by (simp add: save_new_def slot1_valid st0_def)
  have ss: "send_slot 201 (st0\<lparr>slots := [S1 \<mapsto> slot1]\<rparr>) S1 = Response 201 (SlotOut json1)"
    by (rule send_slot_valid[where s = slot1]) (simp_all add: toJSON_slot1 st0_def slot1_sel)
  show ?thesis
    by (simp add: post_create_def advising_def truthy_def find_E1 normalize_2024 conv_examples
          new_Slot_advising sv ss ids_distinct)
qed

lemma st1_eq: "st1 = st0\<lparr>slots := [S1 \<mapsto> slot1]\<rparr>"
  by (simp add: st1_def create_advising)

lemma st1_slots: "slots st1 S1 = Some slot1" "events st1 E1 = Some (Event ''Open day'')"
  by (simp_all add: st1_eq st0_def)

lemma reachable_st0: "reachable rt0 st0"
  by (rule r_init) (simp add: st0_def)

lemma reachable_st1: "reachable rt0 st1"
  unfolding st1_def by (intro r_create reachable_st0)

lemma slot2_sel:
  "eventId slot2 = E1" "status slot2 = Booked"
  "bookedBy slot2 = Some \<lparr>name = ''Bob'', enrollment = ''E42'', email = ''bob@example.org'',
                           bookedAt = 1709300000000\<rparr>"
  by (simp_all add: slot2_def slot1_def)

lemma slot2_valid: "schemaValid slot2"
  using slot1_valid by (simp add: slot2_def)

lemma bob_truthy: "truthy (req_name bob)" "truthy (req_email bob)" "truthy (req_enrollment bob)"
  by (simp_all add: bob_def truthy_def)

lemma bob_booking:
  "slot1\<lparr>status := Booked,
         bookedBy := Some \<lparr>name = trim (the (req_name bob)),
                           enrollment = trim (the (req_enrollment bob)),
                           email = trim (the (req_email bob)),
                           bookedAt = 1709300000000\<rparr>\<rparr> = slot2"
  by (simp add: bob_def trim_examples slot2_def)

lemma toJSON_slot2:
  "toJSON S1 (Some (Event ''Open day'')) slot2
     = Inr (json1\<lparr>j_status := Booked, j_bookedBy := bookedBy slot2\<rparr>)"
  by (simp add: toJSON_def slot2_def slot1_def json1_def iso_2024)

lemma book_bob:
  "snd (post_book rt0 1709300000000 st1 S1 bob) = st1\<lparr>slots := (slots st1)(S1 \<mapsto> slot2)\<rparr>"
  using post_book_ok[OF bob_truthy ids_rt0(2) st1_slots(1) slot1_sel(2) slot1_valid
      bob_booking[symmetric]]
  by auto

lemma st2_eq: "st2 = st1\<lparr>slots := (slots st1)(S1 \<mapsto> slot2)\<rparr>"
  by (simp add: st2_def book_bob)

lemma st2_slots: "slots st2 S1 = Some slot2" "events st2 E1 = Some (Event ''Open day'')"
  by (simp_all add: st2_eq st1_slots)

lemma reachable_st2: "reachable rt0 st2"
  unfolding st2_def by (intro r_book reachable_st1)

lemma cancel_slot2: "slot2\<lparr>status := Available, bookedBy := None\<rparr> = slot1"
  by (simp add: slot2_def slot1_def)

lemma absent_E1: "slots st1 E1 = None" "slots st2 E1 = None"
  by (simp_all add: st2_eq st1_eq st0_def ids_distinct)

lemma slot3_valid: "schemaValid slot3"
  using slot1_valid by (simp add: schemaValid_def slot3_def match_examples)

lemma ub_ok_truthy:
  "truthy (upd_date ub_ok)" "truthy (upd_startTime ub_ok)" "\<not> truthy (upd_endTime ub_ok)"
  "truthy (upd_purpose ub_ok)"
  by (simp_all add: ub_ok_def truthy_def)

lemma apply_ub_ok:
  assumes "date s = Some 1709251200000"
  shows "apply_update rt0 ub_ok \<lparr>content = s, castError = False\<rparr>
           = \<lparr>content = s\<lparr>startTime := ''9:05 AM'', purpose := ''Review''\<rparr>, castError = False\<rparr>"
proof -
  have "s\<lparr>date := Some 1709251200000\<rparr> = s" using assms by simp
  then show ?thesis
    by (simp add: apply_update_def when_truthy_def ub_ok_def set_startTime_def set_purpose_def
          set_date_def normalize_2024 conv_examples trim_examples)
qed

lemma update_ok_st2:
  "snd (put_update rt0 st2 S1 ub_ok)
     = st2\<lparr>slots := (slots st2)(S1 \<mapsto> slot2\<lparr>startTime := ''9:05 AM'', purpose := ''Review''\<rparr>)\<rparr>"
proof -
  have d: "date slot2 = Some 1709251200000" by (simp add: slot2_def slot1_def)
  have v: "schemaValid (slot2\<lparr>startTime := ''9:05 AM'', purpose := ''Review''\<rparr>)"
    using slot2_valid by (simp add: schemaValid_def match_examples)
  show ?thesis
    by (simp add: put_update_def find_slot[OF ids_rt0(2) st2_slots(1)] apply_ub_ok[OF d]
          save_def v)
qed

lemma find_slot1: "findById rt0 (slots st1) S1 = Inr (Some (S1, slot1))"
  by (rule find_slot[OF ids_rt0(2) st1_slots(1)])

lemma update_12h:
  "put_update rt0 st1 S1 ub_12h = (Response 500 (ServerError ValidationError), st1)"
proof -
  have d: "apply_update rt0 ub_12h \<lparr>content = slot1, castError = False\<rparr>
             = \<lparr>content = slot1\<lparr>startTime := ''4:00 PM AM''\<rparr>, castError = False\<rparr>"
    by (simp add: apply_update_def when_truthy_def ub_12h_def set_startTime_def conv_examples)
  have nv: "\<not> schemaValid (slot1\<lparr>startTime := ''4:00 PM AM''\<rparr>)"
    by (simp add: schemaValid_def match_examples)
  show ?thesis
    by (simp add: put_update_def find_slot1 d save_def nv catch_ObjectId_def)
qed

lemma update_bad:
  "put_update rt0 st1 S1 ub_bad = (Response 500 (ServerError ValidationError), st1)"
proof -
  have d: "apply_update rt0 ub_bad \<lparr>content = slot1, castError = False\<rparr>
             = \<lparr>content = slot1\<lparr>startTime := ''2:75 PM''\<rparr>, castError = False\<rparr>"
    by (simp add: apply_update_def when_truthy_def ub_bad_def set_startTime_def conv_examples)
  have nv: "\<not> schemaValid (slot1\<lparr>startTime := ''2:75 PM''\<rparr>)"
    by (simp add: schemaValid_def match_examples)
  show ?thesis
    by (simp add: put_update_def find_slot1 d save_def nv catch_ObjectId_def)
qed

lemma parse_0050: "Date_parse rt0 ''0050-06-15'' = Some (- 60575040000000)"
  by (simp add: rt0_def parseIsoDate_def digitsVal_def digitVal_def isDigit_def date_eval)

lemma year_0050: "YearFromTime (- 60575040000000) = 50"
  by (simp add: date_eval)

lemma month_0050: "MonthFromTime (- 60575040000000) = 5"
  by (simp add: MonthFromTime_def year_0050 DayWithinYear_def Day_def msPerDay_def
        DayFromYear_def InLeapYear_def)

lemma date_0050: "DateFromTime (- 60575040000000) = 15"
  by (simp add: DateFromTime_def month_0050 year_0050 DayWithinYear_def Day_def msPerDay_def
        DayFromYear_def InLeapYear_def monthStart_def)

lemma showNat_50: "showNat 50 = ''50''"
  by (simp add: showNat.simps digitChar_def)

lemma padStart0_50: "padStart0 4 ''50'' = ''0050''"
  by (simp add: padStart0_def eval_nat_numeral)

lemma iso_0050: "toISOString (- 60575040000000) = ''0050-06-15T00:00:00.000Z''"
  by (simp add: toISOString_def year_0050 month_0050 date_0050 TimeWithinDay_def msPerDay_def
        showNat_small padStart0_small showNat_50 padStart0_50)

lemma normalize_0050: "normalizeDate rt0 ''0050-06-15'' = Some (- 616896000000)"
  using normalizeDate_two_digit_year[OF parse_0050]
  by (simp add: year_0050 month_0050 date_0050 MakeDay_def TimeClip_def
        DayFromYear_def InLeapYear_def monthStart_def msPerDay_def)

lemma year_1950: "YearFromTime (- 616896000000) = 1950"
  by (simp add: date_eval)

lemma month_1950: "MonthFromTime (- 616896000000) = 5"
  by (simp add: MonthFromTime_def year_1950 DayWithinYear_def Day_def msPerDay_def
        DayFromYear_def InLeapYear_def)

lemma date_1950: "DateFromTime (- 616896000000) = 15"
  by (simp add: DateFromTime_def month_1950 year_1950 DayWithinYear_def Day_def msPerDay_def
        DayFromYear_def InLeapYear_def monthStart_def)

lemma iso_1950: "toISOString (- 616896000000) = ''1950-06-15T00:00:00.000Z''"
  by (simp add: toISOString_def year_1950 month_1950 date_1950 TimeWithinDay_def msPerDay_def
        showNat_small padStart0_small)

section \<open>Properties of the handlers\<close>

text \<open>
  C3. A slot that a create or an update writes has a start and an end time that match
  the schema's 12-hour pattern, whatever the request holds: a create answered with 201
  and an update answered with 200 leave such a slot under the identifier; every slot of
  the store after the request that was not there before matches; and a request one of
  whose times does not convert to a matching string is not answered with success and
  leaves the store as it was.
\<close>

theorem written_times_match:
  "(post_create rt newId user st cb = (r, st') \<longrightarrow>
      ((\<exists>p. r = Response 201 p) \<longrightarrow>
         (\<exists>s. slots st' newId = Some s \<and> matchesTime12 (startTime s)
                \<and> matchesTime12 (endTime s)))
      \<and> (\<forall>k s. slots st' k = Some s \<and> slots st k \<noteq> Some s \<longrightarrow>
            matchesTime12 (startTime s) \<and> matchesTime12 (endTime s))
      \<and> (\<forall>t. (req_startTime cb = Some t \<or> req_endTime cb = Some t)
               \<and> \<not> matchesTime12 (convertTo12Hour t) \<longrightarrow>
            st' = st \<and> (\<forall>p. r \<noteq> Response 201 p)))
   \<and> (put_update rt st i ub = (r, st') \<longrightarrow>
      ((\<exists>p. r = Response 200 p) \<longrightarrow>
         (\<exists>k s. castObjectId rt i = Some k \<and> slots st' k = Some s
                \<and> matchesTime12 (startTime s) \<and> matchesTime12 (endTime s)))
      \<and> (\<forall>k s. slots st' k = Some s \<and> slots st k \<noteq> Some s \<longrightarrow>
            matchesTime12 (startTime s) \<and> matchesTime12 (endTime s))
      \<and> (\<forall>t. t \<noteq> [] \<and> (upd_startTime ub = Some t \<or> upd_endTime ub = Some t)
               \<and> \<not> matchesTime12 (convertTo12Hour t) \<longrightarrow>
            st' = st \<and> (\<forall>p. r \<noteq> Response 200 p)))"
proof -
  have A: "((\<exists>p. r = Response 201 p) \<longrightarrow>
         (\<exists>s. slots st' newId = Some s \<and> matchesTime12 (startTime s)
                \<and> matchesTime12 (endTime s)))
      \<and> (\<forall>k s. slots st' k = Some s \<and> slots st k \<noteq> Some s \<longrightarrow>
            matchesTime12 (startTime s) \<and> matchesTime12 (endTime s))
      \<and> (\<forall>t. (req_startTime cb = Some t \<or> req_endTime cb = Some t)
               \<and> \<not> matchesTime12 (convertTo12Hour t) \<longrightarrow>
            st' = st \<and> (\<forall>p. r \<noteq> Response 201 p))"
    if e: "post_create rt newId user st cb = (r, st')"
    using post_create_cases[OF e]
  proof (elim disjE exE conjE)
    assume "st' = st" "\<forall>p. r \<noteq> Response 201 p"
    then show ?thesis by simp
  next
    fix s1 j
    assume a: "s1 = content (new_Slot rt (the (req_eventId cb))
                      (normalizeDate rt (the (req_date cb)))
                      (convertTo12Hour (the (req_startTime cb)))
                      (convertTo12Hour (the (req_endTime cb)))
                      (the (req_purpose cb)) user)"
      "schemaValid s1" "st' = st\<lparr>slots := (slots st)(newId \<mapsto> s1)\<rparr>"
    have m: "matchesTime12 (convertTo12Hour (the (req_startTime cb)))"
      "matchesTime12 (convertTo12Hour (the (req_endTime cb)))"
      using a(1,2) by (simp_all add: schemaValid_def new_Slot_fields)
    have m1: "matchesTime12 (startTime s1)" "matchesTime12 (endTime s1)"
      using a(2) by (simp_all add: schemaValid_def)
    have "\<forall>k s. slots st' k = Some s \<and> slots st k \<noteq> Some s \<longrightarrow>
            matchesTime12 (startTime s) \<and> matchesTime12 (endTime s)"
      using a(3) m1 by (auto split: if_splits)
    moreover have "\<exists>s. slots st' newId = Some s \<and> matchesTime12 (startTime s)
                \<and> matchesTime12 (endTime s)"
      using a(3) m1 by simp
    moreover have "\<forall>t. (req_startTime cb = Some t \<or> req_endTime cb = Some t)
               \<and> \<not> matchesTime12 (convertTo12Hour t) \<longrightarrow>
            st' = st \<and> (\<forall>p. r \<noteq> Response 201 p)"
      using m by auto
    ultimately show ?thesis by blast
  qed
  have B: "((\<exists>p. r = Response 200 p) \<longrightarrow>
         (\<exists>k s. castObjectId rt i = Some k \<and> slots st' k = Some s
                \<and> matchesTime12 (startTime s) \<and> matchesTime12 (endTime s)))
      \<and> (\<forall>k s. slots st' k = Some s \<and> slots st k \<noteq> Some s \<longrightarrow>
            matchesTime12 (startTime s) \<and> matchesTime12 (endTime s))
      \<and> (\<forall>t. t \<noteq> [] \<and> (upd_startTime ub = Some t \<or> upd_endTime ub = Some t)
               \<and> \<not> matchesTime12 (convertTo12Hour t) \<longrightarrow>
            st' = st \<and> (\<forall>p. r \<noteq> Response 200 p))"
    if e: "put_update rt st i ub = (r, st')"
    using put_update_cases[OF e]
  proof (elim disjE exE conjE)
    assume "st' = st" "\<forall>p. r \<noteq> Response 200 p"
    then show ?thesis by simp
  next
    fix k0 s0 s1 j
    assume a: "s1 = content (apply_update rt ub \<lparr>content = s0, castError = False\<rparr>)"
      "schemaValid s1" "st' = st\<lparr>slots := (slots st)(k0 \<mapsto> s1)\<rparr>"
      and c: "castObjectId rt i = Some k0"
    have m1: "matchesTime12 (startTime s1)" "matchesTime12 (endTime s1)"
      using a(2) by (simp_all add: schemaValid_def)
    have "\<forall>k s. slots st' k = Some s \<and> slots st k \<noteq> Some s \<longrightarrow>
            matchesTime12 (startTime s) \<and> matchesTime12 (endTime s)"
      using a(3) m1 by (auto split: if_splits)
    moreover have "\<exists>k s. castObjectId rt i = Some k \<and> slots st' k = Some s
                \<and> matchesTime12 (startTime s) \<and> matchesTime12 (endTime s)"
      using a(3) m1 c by simp
    moreover have "\<forall>t. t \<noteq> [] \<and> (upd_startTime ub = Some t \<or> upd_endTime ub = Some t)
               \<and> \<not> matchesTime12 (convertTo12Hour t) \<longrightarrow>
            st' = st \<and> (\<forall>p. r \<noteq> Response 200 p)"
      using m1 a(1) by (auto simp: apply_update_fields truthy_def)
    ultimately show ?thesis by blast
  qed
  show ?thesis using A B by blast
qed

theorem written_times_match_witness:
  "post_create rt0 S1 U1 st0 advising = (Response 201 (SlotOut json1), st1)
   \<and> (\<exists>s. slots st1 S1 = Some s \<and> matchesTime12 (startTime s) \<and> matchesTime12 (endTime s))
   \<and> upd_startTime ub_12h = Some ''4:00 PM''
   \<and> \<not> matchesTime12 (convertTo12Hour ''4:00 PM'')
   \<and> snd (put_update rt0 st1 S1 ub_12h) = st1
   \<and> fst (put_update rt0 st1 S1 ub_12h) = Response 500 (ServerError ValidationError)"
proof -
  note w1 = written_times_match[where rt = rt0 and newId = S1 and user = U1 and st = st0
      and cb = advising and r = "Response 201 (SlotOut json1)" and st' = st1
      and i = S1 and ub = ub_12h]
  note w2 = written_times_match[where rt = rt0 and newId = S1 and user = U1 and st = st1
      and cb = advising and r = "fst (put_update rt0 st1 S1 ub_12h)"
      and st' = "snd (put_update rt0 st1 S1 ub_12h)" and i = S1 and ub = ub_12h]
  have c: "post_create rt0 S1 U1 st0 advising = (Response 201 (SlotOut json1), st1)"
    by (simp add: create_advising st1_eq)
  have a: "\<exists>s. slots st1 S1 = Some s \<and> matchesTime12 (startTime s) \<and> matchesTime12 (endTime s)"
    using w1[THEN conjunct1, THEN mp, OF c, THEN conjunct1] by simp
  have u: "upd_startTime ub_12h = Some ''4:00 PM''" by (simp add: ub_12h_def)
  have n: "\<not> matchesTime12 (convertTo12Hour ''4:00 PM'')"
    by (simp add: conv_examples match_examples)
  have p: "put_update rt0 st1 S1 ub_12h
          = (fst (put_update rt0 st1 S1 ub_12h), snd (put_update rt0 st1 S1 ub_12h))"
    by simp
  have "snd (put_update rt0 st1 S1 ub_12h) = st1"
    using w2[THEN conjunct2, THEN mp, OF p, THEN conjunct2, THEN conjunct2, THEN spec,
        of "''4:00 PM''"] u n by simp
  then show ?thesis using c a u n by (simp add: update_12h)
qed

text \<open>
  C4. In every store reachable through the handlers, a slot has a \<open>bookedBy\<close>
  sub-record exactly when its status is \<open>booked\<close>. A successful create leaves the new
  slot available and without one, an update changes neither of any slot, a successful
  booking leaves the slot booked with one, and a successful cancel leaves it available
  with the sub-record removed. The last three conjuncts are the handlers at work: a
  create whose five fields are supplied, whose event exists and whose values pass the
  schema writes an available slot without a sub-record under the new identifier; a
  booking of an available slot with the three texts supplied writes the slot booked,
  with the sub-record; and a cancel of a booked slot writes the slot available, with
  the sub-record removed and every other field as it was.
\<close>

theorem bookedBy_iff_booked:
  assumes "reachable rt st"
  shows "(\<forall>k s. slots st k = Some s \<longrightarrow> ((bookedBy s \<noteq> None) = (status s = Booked)))
    \<and> (\<forall>newId user cb p st'. post_create rt newId user st cb = (Response 201 p, st') \<longrightarrow>
          (\<exists>s. slots st' newId = Some s \<and> bookedBy s = None \<and> status s = Available))
    \<and> (\<forall>i ub r st' k s'. put_update rt st i ub = (r, st') \<and> slots st' k = Some s' \<longrightarrow>
          (\<exists>s. slots st k = Some s \<and> bookedBy s' = bookedBy s \<and> status s' = status s))
    \<and> (\<forall>now i bb p st'. post_book rt now st i bb = (Response 200 p, st') \<longrightarrow>
          (\<exists>k s. castObjectId rt i = Some k \<and> slots st' k = Some s
                 \<and> bookedBy s \<noteq> None \<and> status s = Booked))
    \<and> (\<forall>i p st'. put_cancel rt st i = (Response 200 p, st') \<longrightarrow>
          (\<exists>k s. castObjectId rt i = Some k \<and> slots st' k = Some s
                 \<and> bookedBy s = None \<and> status s = Available))
    \<and> (\<forall>newId user cb ek e ck t.
          truthy (req_eventId cb) \<and> truthy (req_date cb) \<and> truthy (req_startTime cb)
          \<and> truthy (req_endTime cb) \<and> truthy (req_purpose cb)
          \<and> castObjectId rt (the (req_eventId cb)) = Some ek \<and> events st ek = Some e
          \<and> castObjectId rt user = Some ck
          \<and> normalizeDate rt (the (req_date cb)) = Some t
          \<and> matchesTime12 (convertTo12Hour (the (req_startTime cb)))
          \<and> matchesTime12 (convertTo12Hour (the (req_endTime cb)))
          \<and> trim (the (req_purpose cb)) \<noteq> [] \<and> slots st newId = None \<longrightarrow>
          (\<exists>p. post_create rt newId user st cb =
                  (Response 201 p,
                   st\<lparr>slots := (slots st)(newId \<mapsto>
                        \<lparr>eventId = ek, date = Some t,
                         startTime = convertTo12Hour (the (req_startTime cb)),
                         endTime = convertTo12Hour (the (req_endTime cb)),
                         purpose = trim (the (req_purpose cb)), status = Available,
                         bookedBy = None, createdBy = ck\<rparr>)\<rparr>)))
    \<and> (\<forall>now i bb k s.
          truthy (req_name bb) \<and> truthy (req_email bb) \<and> truthy (req_enrollment bb)
          \<and> castObjectId rt i = Some k \<and> slots st k = Some s \<and> status s = Available \<longrightarrow>
          (\<exists>p. post_book rt now st i bb =
                  (Response 200 p,
                   st\<lparr>slots := (slots st)(k \<mapsto>
                        s\<lparr>status := Booked,
                          bookedBy := Some \<lparr>name = trim (the (req_name bb)),
                                            enrollment = trim (the (req_enrollment bb)),
                                            email = trim (the (req_email bb)),
                                            bookedAt = now\<rparr>\<rparr>)\<rparr>)))
    \<and> (\<forall>i k s. castObjectId rt i = Some k \<and> slots st k = Some s \<and> status s = Booked \<longrightarrow>
          (\<exists>p. put_cancel rt st i =
                  (Response 200 p,
                   st\<lparr>slots := (slots st)(k \<mapsto> s\<lparr>status := Available, bookedBy := None\<rparr>)\<rparr>)))"
proof (intro conjI allI impI)
  fix k s assume "slots st k = Some s"
  then show "(bookedBy s \<noteq> None) = (status s = Booked)"
    using reachable_inv[OF assms] by blast
next
  fix newId user cb p st'
  assume e: "post_create rt newId user st cb = (Response 201 p, st')"
  from post_create_cases[OF e]
  show "\<exists>s. slots st' newId = Some s \<and> bookedBy s = None \<and> status s = Available"
    by (auto simp: new_Slot_fields)
next
  fix i ub r st' k s'
  assume "put_update rt st i ub = (r, st') \<and> slots st' k = Some s'"
  then have e: "put_update rt st i ub = (r, st')" and s': "slots st' k = Some s'" by simp_all
  from put_update_cases[OF e] s'
  show "\<exists>s. slots st k = Some s \<and> bookedBy s' = bookedBy s \<and> status s' = status s"
    by (auto simp: apply_update_frame split: if_splits)
next
  fix now i bb p st'
  assume e: "post_book rt now st i bb = (Response 200 p, st')"
  from post_book_cases[OF e]
  show "\<exists>k s. castObjectId rt i = Some k \<and> slots st' k = Some s
              \<and> bookedBy s \<noteq> None \<and> status s = Booked"
    by auto
next
  fix i p st'
  assume e: "put_cancel rt st i = (Response 200 p, st')"
  from put_cancel_cases[OF e]
  show "\<exists>k s. castObjectId rt i = Some k \<and> slots st' k = Some s
              \<and> bookedBy s = None \<and> status s = Available"
    by auto
next
  fix newId user ek e ck t and cb :: create_body
  let ?s = "\<lparr>eventId = ek, date = Some t,
             startTime = convertTo12Hour (the (req_startTime cb)),
             endTime = convertTo12Hour (the (req_endTime cb)),
             purpose = trim (the (req_purpose cb)), status = Available,
             bookedBy = None, createdBy = ck\<rparr>"
  assume a: "truthy (req_eventId cb) \<and> truthy (req_date cb) \<and> truthy (req_startTime cb)
          \<and> truthy (req_endTime cb) \<and> truthy (req_purpose cb)
          \<and> castObjectId rt (the (req_eventId cb)) = Some ek \<and> events st ek = Some e
          \<and> castObjectId rt user = Some ck
          \<and> normalizeDate rt (the (req_date cb)) = Some t
          \<and> matchesTime12 (convertTo12Hour (the (req_startTime cb)))
          \<and> matchesTime12 (convertTo12Hour (the (req_endTime cb)))
          \<and> trim (the (req_purpose cb)) \<noteq> [] \<and> slots st newId = None"
  have "\<exists>j. toJSON newId (Some e) ?s = Inr j
           \<and> post_create rt newId user st cb
               = (Response 201 (SlotOut j), st\<lparr>slots := (slots st)(newId \<mapsto> ?s)\<rparr>)"
    by (rule post_create_ok[where ek = ek and ck = ck and t = t]) (simp_all add: a)
  then show "\<exists>p. post_create rt newId user st cb
               = (Response 201 p, st\<lparr>slots := (slots st)(newId \<mapsto> ?s)\<rparr>)"
    by blast
next
  fix now i k and s :: slot and bb :: book_body
  let ?s = "s\<lparr>status := Booked,
               bookedBy := Some \<lparr>name = trim (the (req_name bb)),
                                 enrollment = trim (the (req_enrollment bb)),
                                 email = trim (the (req_email bb)),
                                 bookedAt = now\<rparr>\<rparr>"
  assume a: "truthy (req_name bb) \<and> truthy (req_email bb) \<and> truthy (req_enrollment bb)
          \<and> castObjectId rt i = Some k \<and> slots st k = Some s \<and> status s = Available"
  then have v: "schemaValid s" using reachable_inv[OF assms, of k s] by simp
  have "\<exists>j. toJSON k (events st (eventId s)) ?s = Inr j
           \<and> post_book rt now st i bb
               = (Response 200 (SlotOut j), st\<lparr>slots := (slots st)(k \<mapsto> ?s)\<rparr>)"
    by (rule post_book_ok[where s = s]) (simp_all add: a v)
  then show "\<exists>p. post_book rt now st i bb
               = (Response 200 p, st\<lparr>slots := (slots st)(k \<mapsto> ?s)\<rparr>)"
    by blast
next
  fix i k and s :: slot
  let ?s = "s\<lparr>status := Available, bookedBy := None\<rparr>"
  assume a: "castObjectId rt i = Some k \<and> slots st k = Some s \<and> status s = Booked"
  then have v: "schemaValid s" using reachable_inv[OF assms, of k s] by simp
  have "\<exists>j. toJSON k (events st (eventId s)) ?s = Inr j
           \<and> put_cancel rt st i
               = (Response 200 (SlotOut j), st\<lparr>slots := (slots st)(k \<mapsto> ?s)\<rparr>)"
    by (rule put_cancel_ok[where s = s]) (simp_all add: a v)
  then show "\<exists>p. put_cancel rt st i
               = (Response 200 p, st\<lparr>slots := (slots st)(k \<mapsto> ?s)\<rparr>)"
    by blast
qed

theorem bookedBy_iff_booked_witness:
  "reachable rt0 st0
   \<and> (\<exists>p. post_create rt0 S1 U1 st0 advising = (Response 201 p, st1))
   \<and> slots st1 S1 = Some slot1 \<and> bookedBy slot1 = None \<and> status slot1 = Available
   \<and> castObjectId rt0 S1_upper = Some S1
   \<and> (\<exists>p. post_book rt0 1709300000000 st1 S1_upper bob = (Response 200 p, st2))
   \<and> slots st2 S1 = Some slot2 \<and> bookedBy slot2 \<noteq> None \<and> status slot2 = Booked
   \<and> slots (snd (put_update rt0 st2 S1 ub_ok)) S1
       = Some (slot2\<lparr>startTime := ''9:05 AM'', purpose := ''Review''\<rparr>)
   \<and> (\<exists>s. slots st2 S1 = Some s
          \<and> bookedBy (slot2\<lparr>startTime := ''9:05 AM'', purpose := ''Review''\<rparr>) = bookedBy s
          \<and> status (slot2\<lparr>startTime := ''9:05 AM'', purpose := ''Review''\<rparr>) = status s)
   \<and> (\<exists>p. put_cancel rt0 st2 S1_upper = (Response 200 p, st1))
   \<and> (\<exists>p. put_cancel rt0 st2 S1 = (Response 200 p, st1))"
proof -
  note T0 = bookedBy_iff_booked[OF reachable_st0]
  note T1 = bookedBy_iff_booked[OF reachable_st1]
  note T2 = bookedBy_iff_booked[OF reachable_st2]
  have inv2: "(bookedBy slot2 \<noteq> None) = (status slot2 = Booked)"
    using T2[THEN conjunct1, rule_format, OF st2_slots(1)] .
  have inv1: "(bookedBy slot1 \<noteq> None) = (status slot1 = Booked)"
    using T1[THEN conjunct1, rule_format, OF st1_slots(1)] .
  have cp: "truthy (req_eventId advising) \<and> truthy (req_date advising)
          \<and> truthy (req_startTime advising) \<and> truthy (req_endTime advising)
          \<and> truthy (req_purpose advising)
          \<and> castObjectId rt0 (the (req_eventId advising)) = Some E1
          \<and> events st0 E1 = Some (Event ''Open day'')
          \<and> castObjectId rt0 U1 = Some U1
          \<and> normalizeDate rt0 (the (req_date advising)) = Some 1709251200000
          \<and> matchesTime12 (convertTo12Hour (the (req_startTime advising)))
          \<and> matchesTime12 (convertTo12Hour (the (req_endTime advising)))
          \<and> trim (the (req_purpose advising)) \<noteq> [] \<and> slots st0 S1 = None"
    by (simp add: advising_def truthy_def ids_distinct ids_rt0 st0_def normalize_2024
          conv_examples match_examples trim_examples)
  have s1: "\<lparr>eventId = E1, date = Some 1709251200000,
             startTime = convertTo12Hour (the (req_startTime advising)),
             endTime = convertTo12Hour (the (req_endTime advising)),
             purpose = trim (the (req_purpose advising)), status = Available,
             bookedBy = None, createdBy = U1\<rparr> = slot1"
    by (simp add: advising_def conv_examples trim_examples slot1_def)
  have st1': "st0\<lparr>slots := (slots st0)(S1 \<mapsto> slot1)\<rparr> = st1"
    by (simp add: st1_eq st0_def)
  have c: "\<exists>p. post_create rt0 S1 U1 st0 advising = (Response 201 p, st1)"
    using T0[THEN conjunct2, THEN conjunct2, THEN conjunct2, THEN conjunct2, THEN conjunct2,
        THEN conjunct1, rule_format, OF cp]
    unfolding s1 st1' .
  have bp: "truthy (req_name bob) \<and> truthy (req_email bob) \<and> truthy (req_enrollment bob)
          \<and> castObjectId rt0 S1_upper = Some S1 \<and> slots st1 S1 = Some slot1
          \<and> status slot1 = Available"
    using bob_truthy ids_rt0(4) st1_slots(1) slot1_sel(2) by simp
  have b: "\<exists>p. post_book rt0 1709300000000 st1 S1_upper bob = (Response 200 p, st2)"
    using T1[THEN conjunct2, THEN conjunct2, THEN conjunct2, THEN conjunct2, THEN conjunct2,
        THEN conjunct2, THEN conjunct1, rule_format, OF bp, of 1709300000000]
    unfolding bob_booking st2_eq[symmetric] .
  have st2': "st2\<lparr>slots := (slots st2)(S1 \<mapsto> slot1)\<rparr> = st1"
    by (simp add: st2_eq st1_eq)
  have xp: "castObjectId rt0 S1_upper = Some S1 \<and> slots st2 S1 = Some slot2
          \<and> status slot2 = Booked"
    using ids_rt0(4) st2_slots(1) slot2_sel(2) by simp
  have x: "\<exists>p. put_cancel rt0 st2 S1_upper = (Response 200 p, st1)"
    using T2[THEN conjunct2, THEN conjunct2, THEN conjunct2, THEN conjunct2, THEN conjunct2,
        THEN conjunct2, THEN conjunct2, rule_format, OF xp]
    unfolding cancel_slot2 st2' .
  have yp: "castObjectId rt0 S1 = Some S1 \<and> slots st2 S1 = Some slot2 \<and> status slot2 = Booked"
    using ids_rt0(2) st2_slots(1) slot2_sel(2) by simp
  have y: "\<exists>p. put_cancel rt0 st2 S1 = (Response 200 p, st1)"
    using T2[THEN conjunct2, THEN conjunct2, THEN conjunct2, THEN conjunct2, THEN conjunct2,
        THEN conjunct2, THEN conjunct2, rule_format, OF yp]
    unfolding cancel_slot2 st2' .
  have u: "slots (snd (put_update rt0 st2 S1 ub_ok)) S1
       = Some (slot2\<lparr>startTime := ''9:05 AM'', purpose := ''Review''\<rparr>)"
    by (simp add: update_ok_st2)
  have up: "put_update rt0 st2 S1 ub_ok
             = (fst (put_update rt0 st2 S1 ub_ok), snd (put_update rt0 st2 S1 ub_ok))
          \<and> slots (snd (put_update rt0 st2 S1 ub_ok)) S1
             = Some (slot2\<lparr>startTime := ''9:05 AM'', purpose := ''Review''\<rparr>)"
    using u by simp
  have f: "\<exists>s. slots st2 S1 = Some s
          \<and> bookedBy (slot2\<lparr>startTime := ''9:05 AM'', purpose := ''Review''\<rparr>) = bookedBy s
          \<and> status (slot2\<lparr>startTime := ''9:05 AM'', purpose := ''Review''\<rparr>) = status s"
    using T2[THEN conjunct2, THEN conjunct2, THEN conjunct1, rule_format, OF up] .
  have i1: "bookedBy slot1 = None \<and> status slot1 = Available"
    using inv1 by (simp add: slot1_sel)
  have i2: "bookedBy slot2 \<noteq> None \<and> status slot2 = Booked"
    using inv2 by (simp add: slot2_sel)
  show ?thesis
    using reachable_st0 c st1_slots(1) i1 ids_rt0(4) b st2_slots(1) i2 u f x y
    by (intro conjI) simp_all
qed

text \<open>
  C5, as the code has it. On a reachable store the booking handler answers 400 when one
  of name, email and enrollment is missing or empty; else 404 when the identifier does
  not cast to an ObjectId or no slot has the ObjectId it casts to; else 400, with the
  store unchanged, when the slot is not available; else it sets the status to
  \<open>booked\<close>, stores the three texts with their leading and trailing white space
  removed together with the current time, and answers 200 with the updated slot, which
  is the \<open>toJSON\<close> of the slot as stored, with its event filled in.
\<close>

theorem post_book_spec:
  assumes "reachable rt st"
  shows "(\<not> truthy (req_name bb) \<or> \<not> truthy (req_email bb) \<or> \<not> truthy (req_enrollment bb) \<longrightarrow>
            post_book rt now st i bb = (Response 400 (Message ''All fields are required''), st))
    \<and> (truthy (req_name bb) \<and> truthy (req_email bb) \<and> truthy (req_enrollment bb) \<longrightarrow>
         ((castObjectId rt i = None \<or> (\<exists>k. castObjectId rt i = Some k \<and> slots st k = None)) \<longrightarrow>
            post_book rt now st i bb = (Response 404 (Message ''Slot not found''), st))
         \<and> (\<forall>k s. castObjectId rt i = Some k \<and> slots st k = Some s \<and> status s \<noteq> Available \<longrightarrow>
               post_book rt now st i bb = (Response 400 (Message ''Slot is not available''), st))
         \<and> (\<forall>k s s'. castObjectId rt i = Some k \<and> slots st k = Some s \<and> status s = Available
               \<and> s' = s\<lparr>status := Booked,
                         bookedBy := Some \<lparr>name = trim (the (req_name bb)),
                                           enrollment = trim (the (req_enrollment bb)),
                                           email = trim (the (req_email bb)),
                                           bookedAt = now\<rparr>\<rparr> \<longrightarrow>
               (\<exists>j. post_book rt now st i bb =
                       (Response 200 (SlotOut j), st\<lparr>slots := (slots st)(k \<mapsto> s')\<rparr>)
                    \<and> toJSON k (events st (eventId s)) s' = Inr j
                    \<and> j_id j = k \<and> j_eventId j = events st (eventId s)
                    \<and> j_status j = Booked
                    \<and> j_bookedBy j = Some \<lparr>name = trim (the (req_name bb)),
                                            enrollment = trim (the (req_enrollment bb)),
                                            email = trim (the (req_email bb)),
                                            bookedAt = now\<rparr>
                    \<and> j_startTime j = startTime s \<and> j_endTime j = endTime s
                    \<and> j_purpose j = purpose s \<and> j_createdBy j = createdBy s)))"
proof (intro conjI impI allI)
  assume "\<not> truthy (req_name bb) \<or> \<not> truthy (req_email bb) \<or> \<not> truthy (req_enrollment bb)"
  then show "post_book rt now st i bb = (Response 400 (Message ''All fields are required''), st)"
    by (auto simp: post_book_def)
next
  assume tr: "truthy (req_name bb) \<and> truthy (req_email bb) \<and> truthy (req_enrollment bb)"
    and "castObjectId rt i = None \<or> (\<exists>k. castObjectId rt i = Some k \<and> slots st k = None)"
  then show "post_book rt now st i bb = (Response 404 (Message ''Slot not found''), st)"
    by (auto simp: post_book_def findById_def catch_ObjectId_def)
next
  fix k and s :: slot
  assume tr: "truthy (req_name bb) \<and> truthy (req_email bb) \<and> truthy (req_enrollment bb)"
    and "castObjectId rt i = Some k \<and> slots st k = Some s \<and> status s \<noteq> Available"
  then show "post_book rt now st i bb = (Response 400 (Message ''Slot is not available''), st)"
    by (auto simp: post_book_def findById_def)
next
  fix k and s s' :: slot
  assume tr: "truthy (req_name bb) \<and> truthy (req_email bb) \<and> truthy (req_enrollment bb)"
    and a: "castObjectId rt i = Some k \<and> slots st k = Some s \<and> status s = Available
               \<and> s' = s\<lparr>status := Booked,
                         bookedBy := Some \<lparr>name = trim (the (req_name bb)),
                                           enrollment = trim (the (req_enrollment bb)),
                                           email = trim (the (req_email bb)),
                                           bookedAt = now\<rparr>\<rparr>"
  have v: "schemaValid s" using reachable_inv[OF assms, of k s] a by simp
  then have v': "schemaValid s'" using a by simp
  have "\<exists>j. toJSON k (events st (eventId s)) s' = Inr j
           \<and> post_book rt now st i bb
               = (Response 200 (SlotOut j), st\<lparr>slots := (slots st)(k \<mapsto> s')\<rparr>)"
    by (rule post_book_ok[where s = s]) (simp_all add: tr a v)
  then obtain j where j: "toJSON k (events st (eventId s)) s' = Inr j"
    "post_book rt now st i bb = (Response 200 (SlotOut j), st\<lparr>slots := (slots st)(k \<mapsto> s')\<rparr>)"
    by blast
  have "j_id j = k \<and> j_eventId j = events st (eventId s)
     \<and> j_startTime j = startTime s' \<and> j_endTime j = endTime s' \<and> j_purpose j = purpose s'
     \<and> j_status j = status s' \<and> j_bookedBy j = bookedBy s' \<and> j_createdBy j = createdBy s'"
    using toJSON_valid[OF v', of k "events st (eventId s)"] j(1) by auto
  then show "\<exists>j. post_book rt now st i bb =
                       (Response 200 (SlotOut j), st\<lparr>slots := (slots st)(k \<mapsto> s')\<rparr>)
                    \<and> toJSON k (events st (eventId s)) s' = Inr j
                    \<and> j_id j = k \<and> j_eventId j = events st (eventId s)
                    \<and> j_status j = Booked
                    \<and> j_bookedBy j = Some \<lparr>name = trim (the (req_name bb)),
                                            enrollment = trim (the (req_enrollment bb)),
                                            email = trim (the (req_email bb)),
                                            bookedAt = now\<rparr>
                    \<and> j_startTime j = startTime s \<and> j_endTime j = endTime s
                    \<and> j_purpose j = purpose s \<and> j_createdBy j = createdBy s"
    using j a by (intro exI[of _ j]) simp
qed

theorem post_book_spec_witness:
  "reachable rt0 st1 \<and> castObjectId rt0 S1 = Some S1 \<and> castObjectId rt0 S1_upper = Some S1
   \<and> slots st1 S1 = Some slot1 \<and> status slot1 = Available
   \<and> post_book rt0 1709300000000 st1 S1 bob
       = (Response 200 (SlotOut (json1\<lparr>j_status := Booked, j_bookedBy := bookedBy slot2\<rparr>)), st2)
   \<and> post_book rt0 1709300000000 st1 S1_upper bob
       = (Response 200 (SlotOut (json1\<lparr>j_status := Booked, j_bookedBy := bookedBy slot2\<rparr>)), st2)
   \<and> bookedBy slot2 = Some \<lparr>name = ''Bob'', enrollment = ''E42'',
                             email = ''bob@example.org'', bookedAt = 1709300000000\<rparr>
   \<and> post_book rt0 1709300000000 st2 S1_upper bob
       = (Response 400 (Message ''Slot is not available''), st2)
   \<and> post_book rt0 1709300000000 st1 S1 (bob\<lparr>req_email := None\<rparr>)
       = (Response 400 (Message ''All fields are required''), st1)
   \<and> slots st1 E1 = None
   \<and> post_book rt0 1709300000000 st1 E1 bob = (Response 404 (Message ''Slot not found''), st1)
   \<and> castObjectId rt0 ''a1'' = None
   \<and> post_book rt0 1709300000000 st1 ''a1'' bob = (Response 404 (Message ''Slot not found''), st1)"
proof -
  have t: "truthy (req_name bob) \<and> truthy (req_email bob) \<and> truthy (req_enrollment bob)"
    using bob_truthy by simp
  have tj: "toJSON S1 (events st1 (eventId slot1)) slot2
              = Inr (json1\<lparr>j_status := Booked, j_bookedBy := bookedBy slot2\<rparr>)"
    by (simp add: slot1_sel st1_slots toJSON_slot2)
  have p1: "castObjectId rt0 S1 = Some S1 \<and> slots st1 S1 = Some slot1
          \<and> status slot1 = Available \<and> slot2 = slot2"
    using ids_rt0(2) st1_slots(1) slot1_sel(2) by simp
  have p1u: "castObjectId rt0 S1_upper = Some S1 \<and> slots st1 S1 = Some slot1
          \<and> status slot1 = Available \<and> slot2 = slot2"
    using ids_rt0(4) st1_slots(1) slot1_sel(2) by simp
  have p2: "castObjectId rt0 S1_upper = Some S1 \<and> slots st2 S1 = Some slot2
          \<and> status slot2 \<noteq> Available"
    using ids_rt0(4) st2_slots(1) slot2_sel(2) by simp
  note ok = post_book_spec[OF reachable_st1, where bb = bob and now = 1709300000000 and i = S1,
      THEN conjunct2, THEN mp, OF t, THEN conjunct2, THEN conjunct2, THEN spec, THEN spec,
      THEN spec, THEN mp, of S1 slot1 slot2, unfolded bob_booking, OF p1]
  note oku = post_book_spec[OF reachable_st1, where bb = bob and now = 1709300000000
      and i = S1_upper,
      THEN conjunct2, THEN mp, OF t, THEN conjunct2, THEN conjunct2, THEN spec, THEN spec,
      THEN spec, THEN mp, of S1 slot1 slot2, unfolded bob_booking, OF p1u]
  have a: "post_book rt0 1709300000000 st1 S1 bob
       = (Response 200 (SlotOut (json1\<lparr>j_status := Booked, j_bookedBy := bookedBy slot2\<rparr>)), st2)"
    using ok tj by (auto simp: st2_eq)
  have au: "post_book rt0 1709300000000 st1 S1_upper bob
       = (Response 200 (SlotOut (json1\<lparr>j_status := Booked, j_bookedBy := bookedBy slot2\<rparr>)), st2)"
    using oku tj by (auto simp: st2_eq)
  have c: "post_book rt0 1709300000000 st2 S1_upper bob
       = (Response 400 (Message ''Slot is not available''), st2)"
    using post_book_spec[OF reachable_st2, where bb = bob and now = 1709300000000
        and i = S1_upper,
      THEN conjunct2, THEN mp, OF t, THEN conjunct2, THEN conjunct1, THEN spec, THEN spec,
      THEN mp, OF p2] .
  have nt: "\<not> truthy (req_name (bob\<lparr>req_email := None\<rparr>))
            \<or> \<not> truthy (req_email (bob\<lparr>req_email := None\<rparr>))
            \<or> \<not> truthy (req_enrollment (bob\<lparr>req_email := None\<rparr>))"
    by (simp add: truthy_def)
  have d: "post_book rt0 1709300000000 st1 S1 (bob\<lparr>req_email := None\<rparr>)
       = (Response 400 (Message ''All fields are required''), st1)"
    using post_book_spec[OF reachable_st1, where bb = "bob\<lparr>req_email := None\<rparr>"
        and now = 1709300000000 and i = S1, THEN conjunct1, THEN mp, OF nt] .
  have n1: "castObjectId rt0 E1 = None
            \<or> (\<exists>k. castObjectId rt0 E1 = Some k \<and> slots st1 k = None)"
    using ids_rt0(1) absent_E1(1) by simp
  have e: "post_book rt0 1709300000000 st1 E1 bob = (Response 404 (Message ''Slot not found''), st1)"
    using post_book_spec[OF reachable_st1, where bb = bob and now = 1709300000000 and i = E1,
      THEN conjunct2, THEN mp, OF t, THEN conjunct1, THEN mp, OF n1] .
  have nc: "castObjectId rt0 ''a1'' = None"
    by (simp add: rt0_def castHex24_def hex24_def)
  then have n2: "castObjectId rt0 ''a1'' = None
            \<or> (\<exists>k. castObjectId rt0 ''a1'' = Some k \<and> slots st1 k = None)"
    by simp
  have f: "post_book rt0 1709300000000 st1 ''a1'' bob
             = (Response 404 (Message ''Slot not found''), st1)"
    using post_book_spec[OF reachable_st1, where bb = bob and now = 1709300000000
        and i = "''a1''",
      THEN conjunct2, THEN mp, OF t, THEN conjunct1, THEN mp, OF n2] .
  show ?thesis
    using reachable_st1 ids_rt0(2) ids_rt0(4) st1_slots(1) slot1_sel(2) a au slot2_sel(3) c d
      absent_E1(1) e nc f
    by (intro conjI) simp_all
qed

text \<open>
  C5, as the claim states it, fails: the name \<open>" Bob"\<close> is stored as \<open>"Bob"\<close>, not
  as it was supplied.
\<close>

theorem post_book_counterexample:
  "req_name bob = Some '' Bob''
   \<and> slots (snd (post_book rt0 1709300000000 st1 S1 bob)) S1 = Some slot2
   \<and> map_option name (bookedBy slot2) = Some ''Bob''
   \<and> map_option name (bookedBy slot2) \<noteq> req_name bob"
proof -
  have a: "slots (snd (post_book rt0 1709300000000 st1 S1 bob)) S1 = Some slot2"
    by (simp add: book_bob)
  have b: "req_name bob = Some '' Bob''" by (simp add: bob_def)
  show ?thesis using a by (simp add: b slot2_sel)
qed

text \<open>
  C6. On a reachable store the cancel handler answers 404 when the identifier does not
  cast to an ObjectId or no slot has the ObjectId it casts to; 400, with the store
  unchanged, when the slot is not booked; and otherwise sets the status to
  \<open>available\<close>, removes \<open>bookedBy\<close> and answers 200 with the updated slot, which is
  the \<open>toJSON\<close> of the slot as stored, with its event filled in.
\<close>

theorem put_cancel_spec:
  assumes "reachable rt st"
  shows "((castObjectId rt i = None \<or> (\<exists>k. castObjectId rt i = Some k \<and> slots st k = None)) \<longrightarrow>
            put_cancel rt st i = (Response 404 (Message ''Slot not found''), st))
    \<and> (\<forall>k s. castObjectId rt i = Some k \<and> slots st k = Some s \<and> status s \<noteq> Booked \<longrightarrow>
          put_cancel rt st i = (Response 400 (Message ''Slot is not booked''), st))
    \<and> (\<forall>k s s'. castObjectId rt i = Some k \<and> slots st k = Some s \<and> status s = Booked
          \<and> s' = s\<lparr>status := Available, bookedBy := None\<rparr> \<longrightarrow>
          (\<exists>j. put_cancel rt st i =
                  (Response 200 (SlotOut j), st\<lparr>slots := (slots st)(k \<mapsto> s')\<rparr>)
               \<and> toJSON k (events st (eventId s)) s' = Inr j
               \<and> j_id j = k \<and> j_eventId j = events st (eventId s)
               \<and> j_status j = Available \<and> j_bookedBy j = None
               \<and> j_startTime j = startTime s \<and> j_endTime j = endTime s
               \<and> j_purpose j = purpose s \<and> j_createdBy j = createdBy s))"
proof (intro conjI impI allI)
  assume "castObjectId rt i = None \<or> (\<exists>k. castObjectId rt i = Some k \<and> slots st k = None)"
  then show "put_cancel rt st i = (Response 404 (Message ''Slot not found''), st)"
    by (auto simp: put_cancel_def findById_def catch_ObjectId_def)
next
  fix k and s :: slot
  assume "castObjectId rt i = Some k \<and> slots st k = Some s \<and> status s \<noteq> Booked"
  then show "put_cancel rt st i = (Response 400 (Message ''Slot is not booked''), st)"
    by (auto simp: put_cancel_def findById_def)
next
  fix k and s s' :: slot
  assume a: "castObjectId rt i = Some k \<and> slots st k = Some s \<and> status s = Booked
          \<and> s' = s\<lparr>status := Available, bookedBy := None\<rparr>"
  have v: "schemaValid s" using reachable_inv[OF assms, of k s] a by simp
  then have v': "schemaValid s'" using a by simp
  have "\<exists>j. toJSON k (events st (eventId s)) s' = Inr j
           \<and> put_cancel rt st i
               = (Response 200 (SlotOut j), st\<lparr>slots := (slots st)(k \<mapsto> s')\<rparr>)"
    by (rule put_cancel_ok[where s = s]) (simp_all add: a v)
  then obtain j where j: "toJSON k (events st (eventId s)) s' = Inr j"
    "put_cancel rt st i = (Response 200 (SlotOut j), st\<lparr>slots := (slots st)(k \<mapsto> s')\<rparr>)"
    by blast
  have "j_id j = k \<and> j_eventId j = events st (eventId s)
     \<and> j_startTime j = startTime s' \<and> j_endTime j = endTime s' \<and> j_purpose j = purpose s'
     \<and> j_status j = status s' \<and> j_bookedBy j = bookedBy s' \<and> j_createdBy j = createdBy s'"
    using toJSON_valid[OF v', of k "events st (eventId s)"] j(1) by auto
  then show "\<exists>j. put_cancel rt st i =
                  (Response 200 (SlotOut j), st\<lparr>slots := (slots st)(k \<mapsto> s')\<rparr>)
               \<and> toJSON k (events st (eventId s)) s' = Inr j
               \<and> j_id j = k \<and> j_eventId j = events st (eventId s)
               \<and> j_status j = Available \<and> j_bookedBy j = None
               \<and> j_startTime j = startTime s \<and> j_endTime j = endTime s
               \<and> j_purpose j = purpose s \<and> j_createdBy j = createdBy s"
    using j a by (intro exI[of _ j]) simp
qed

theorem put_cancel_spec_witness:
  "reachable rt0 st2 \<and> castObjectId rt0 S1 = Some S1 \<and> castObjectId rt0 S1_upper = Some S1
   \<and> slots st2 S1 = Some slot2 \<and> status slot2 = Booked
   \<and> put_cancel rt0 st2 S1 = (Response 200 (SlotOut json1), st1)
   \<and> put_cancel rt0 st2 S1_upper = (Response 200 (SlotOut json1), st1)
   \<and> j_status json1 = Available \<and> j_bookedBy json1 = None
   \<and> slots st1 S1 = Some slot1 \<and> status slot1 = Available \<and> bookedBy slot1 = None
   \<and> put_cancel rt0 st1 S1_upper = (Response 400 (Message ''Slot is not booked''), st1)
   \<and> slots st2 E1 = None
   \<and> put_cancel rt0 st2 E1 = (Response 404 (Message ''Slot not found''), st2)
   \<and> castObjectId rt0 ''a1'' = None
   \<and> put_cancel rt0 st2 ''a1'' = (Response 404 (Message ''Slot not found''), st2)"
proof -
  have tj: "toJSON S1 (events st2 (eventId slot2)) slot1 = Inr json1"
    by (simp add: slot2_sel st2_slots toJSON_slot1)
  have st2': "st2\<lparr>slots := (slots st2)(S1 \<mapsto> slot1)\<rparr> = st1"
    by (simp add: st2_eq st1_eq)
  have p1: "castObjectId rt0 S1 = Some S1 \<and> slots st2 S1 = Some slot2 \<and> status slot2 = Booked
          \<and> slot1 = slot1"
    using ids_rt0(2) st2_slots(1) slot2_sel(2) by simp
  have p1u: "castObjectId rt0 S1_upper = Some S1 \<and> slots st2 S1 = Some slot2
          \<and> status slot2 = Booked \<and> slot1 = slot1"
    using ids_rt0(4) st2_slots(1) slot2_sel(2) by simp
  have p2: "castObjectId rt0 S1_upper = Some S1 \<and> slots st1 S1 = Some slot1
          \<and> status slot1 \<noteq> Booked"
    using ids_rt0(4) st1_slots(1) slot1_sel(2) by simp
  note ok = put_cancel_spec[OF reachable_st2, where i = S1, THEN conjunct2, THEN conjunct2,
      THEN spec, THEN spec, THEN spec, THEN mp, of S1 slot2 slot1, unfolded cancel_slot2, OF p1]
  note oku = put_cancel_spec[OF reachable_st2, where i = S1_upper, THEN conjunct2,
      THEN conjunct2, THEN spec, THEN spec, THEN spec, THEN mp, of S1 slot2 slot1,
      unfolded cancel_slot2, OF p1u]
  have a: "put_cancel rt0 st2 S1 = (Response 200 (SlotOut json1), st1)"
    using ok tj by (auto simp: st2')
  have au: "put_cancel rt0 st2 S1_upper = (Response 200 (SlotOut json1), st1)"
    using oku tj by (auto simp: st2')
  have b: "put_cancel rt0 st1 S1_upper = (Response 400 (Message ''Slot is not booked''), st1)"
    using put_cancel_spec[OF reachable_st1, where i = S1_upper, THEN conjunct2, THEN conjunct1,
      THEN spec, THEN spec, THEN mp, OF p2] .
  have n1: "castObjectId rt0 E1 = None
            \<or> (\<exists>k. castObjectId rt0 E1 = Some k \<and> slots st2 k = None)"
    using ids_rt0(1) absent_E1(2) by simp
  have c: "put_cancel rt0 st2 E1 = (Response 404 (Message ''Slot not found''), st2)"
    using put_cancel_spec[OF reachable_st2, where i = E1, THEN conjunct1, THEN mp, OF n1] .
  have nc: "castObjectId rt0 ''a1'' = None"
    by (simp add: rt0_def castHex24_def hex24_def)
  then have n2: "castObjectId rt0 ''a1'' = None
            \<or> (\<exists>k. castObjectId rt0 ''a1'' = Some k \<and> slots st2 k = None)"
    by simp
  have d: "put_cancel rt0 st2 ''a1'' = (Response 404 (Message ''Slot not found''), st2)"
    using put_cancel_spec[OF reachable_st2, where i = "''a1''", THEN conjunct1, THEN mp, OF n2] .
  have js: "j_status json1 = Available \<and> j_bookedBy json1 = None"
    by (simp add: json1_def)
  show ?thesis
    using reachable_st2 ids_rt0(2) ids_rt0(4) st2_slots(1) slot2_sel(2) a au js st1_slots(1)
      slot1_sel(2) slot1_sel(3) b absent_E1(2) c nc d
    by (intro conjI) simp_all
qed

text \<open>
  C7. A create request in which one of \<open>eventId\<close>, \<open>date\<close>, \<open>startTime\<close>,
  \<open>endTime\<close> and \<open>purpose\<close> is missing (or empty) is answered with 400 and the store
  is returned as it was; the answer is the same whatever the store holds, so neither
  collection is read.
\<close>

theorem create_missing_field:
  assumes "f \<in> {req_eventId b, req_date b, req_startTime b, req_endTime b, req_purpose b}"
    and "f = None \<or> f = Some []"
  shows "post_create rt newId user st b = (Response 400 (Message ''All fields are required''), st)
       \<and> fst (post_create rt newId user st b) = fst (post_create rt newId user st' b)"
proof -
  have "\<not> truthy f" using assms(2) by (auto simp: truthy_def)
  then have m: "\<not> truthy (req_eventId b) \<or> \<not> truthy (req_date b) \<or> \<not> truthy (req_startTime b)
         \<or> \<not> truthy (req_endTime b) \<or> \<not> truthy (req_purpose b)"
    using assms(1) by auto
  have "\<And>x. post_create rt newId user x b = (Response 400 (Message ''All fields are required''), x)"
    using m by (auto simp: post_create_def)
  then show ?thesis by simp
qed

theorem create_missing_field_witness:
  "req_purpose (advising\<lparr>req_purpose := None\<rparr>) = None
   \<and> post_create rt0 S1 U1 st0 (advising\<lparr>req_purpose := None\<rparr>)
       = (Response 400 (Message ''All fields are required''), st0)
   \<and> post_create rt0 S1 U1 st1 (advising\<lparr>req_date := Some []\<rparr>)
       = (Response 400 (Message ''All fields are required''), st1)"
proof -
  have a: "post_create rt0 S1 U1 st0 (advising\<lparr>req_purpose := None\<rparr>)
       = (Response 400 (Message ''All fields are required''), st0)"
    using create_missing_field[where f = None and b = "advising\<lparr>req_purpose := None\<rparr>"
        and rt = rt0 and newId = S1 and user = U1 and st = st0 and st' = st0]
    by simp
  have b: "post_create rt0 S1 U1 st1 (advising\<lparr>req_date := Some []\<rparr>)
       = (Response 400 (Message ''All fields are required''), st1)"
    using create_missing_field[where f = "Some []" and b = "advising\<lparr>req_date := Some []\<rparr>"
        and rt = rt0 and newId = S1 and user = U1 and st = st1 and st' = st1]
    by simp
  show ?thesis using a b by simp
qed

text \<open>
  C8. At the date \<open>0050-06-15\<close> the create handler stores and returns the day
  \<open>1950-06-15\<close>: \<open>Date.UTC\<close> reads the year 50 that \<open>getUTCFullYear\<close> returns as 1950.
  The input's own UTC day, as \<open>toISOString\<close> prints it, is \<open>0050-06-15\<close>.
\<close>

theorem create_two_digit_year:
  "Date_parse rt0 ''0050-06-15'' = Some (- 60575040000000)
   \<and> toISOString (- 60575040000000) = ''0050-06-15T00:00:00.000Z''
   \<and> normalizeDate rt0 ''0050-06-15'' = Some (- 616896000000)
   \<and> post_create rt0 S1 U1 st0 (advising\<lparr>req_date := Some ''0050-06-15''\<rparr>)
       = (Response 201 (SlotOut (json1\<lparr>j_date := ''1950-06-15''\<rparr>)),
          st0\<lparr>slots := [S1 \<mapsto> slot1\<lparr>date := Some (- 616896000000)\<rparr>]\<rparr>)"
proof -
  let ?s = "slot1\<lparr>date := Some (- 616896000000)\<rparr>"
  let ?st = "st0\<lparr>slots := [S1 \<mapsto> ?s]\<rparr>"
  have v: "schemaValid ?s" using slot1_valid by (simp add: schemaValid_def)
  have n: "new_Slot rt0 E1 (Some (- 616896000000)) ''2:30 PM'' ''3:00 PM'' ''Advising'' U1
             = \<lparr>content = ?s, castError = False\<rparr>"
    by (simp add: new_Slot_ok[OF ids_rt0(1) ids_rt0(3)] trim_examples slot1_def)
  have sv: "save_new S1 \<lparr>content = ?s, castError = False\<rparr> st0 = Inr ?st"
    using v by (simp add: save_new_def st0_def)
  have tj: "toJSON S1 (Some (Event ''Open day'')) ?s = Inr (json1\<lparr>j_date := ''1950-06-15''\<rparr>)"
    by (simp add: toJSON_def slot1_def json1_def iso_1950)
  have ss: "send_slot 201 ?st S1 = Response 201 (SlotOut (json1\<lparr>j_date := ''1950-06-15''\<rparr>))"
    by (rule send_slot_valid[where s = ?s]) (simp_all add: tj st0_def slot1_sel)
  have "post_create rt0 S1 U1 st0 (advising\<lparr>req_date := Some ''0050-06-15''\<rparr>)
       = (Response 201 (SlotOut (json1\<lparr>j_date := ''1950-06-15''\<rparr>)), ?st)"
    by (simp add: post_create_def advising_def truthy_def find_E1 normalize_0050 conv_examples
          n sv ss ids_distinct)
  then show ?thesis using parse_0050 iso_0050 normalize_0050 by simp
qed

text \<open>The answer and the stored date of that request, read off the theorem.\<close>

theorem create_two_digit_year_witness:
  "fst (post_create rt0 S1 U1 st0 (advising\<lparr>req_date := Some ''0050-06-15''\<rparr>))
     = Response 201 (SlotOut (json1\<lparr>j_date := ''1950-06-15''\<rparr>))
   \<and> map_option date
        (slots (snd (post_create rt0 S1 U1 st0 (advising\<lparr>req_date := Some ''0050-06-15''\<rparr>))) S1)
     = Some (Some (- 616896000000))
   \<and> toISOString (- 616896000000) = ''1950-06-15T00:00:00.000Z''"
  using create_two_digit_year iso_1950 by simp

text \<open>
  C9, as the code has it. An update of an identifier that does not cast to an ObjectId,
  or that casts to one no slot has, is answered with 404. For an existing slot, let
  \<open>s'\<close> be the slot with each of \<open>date\<close>, \<open>startTime\<close>, \<open>endTime\<close> and \<open>purpose\<close>
  that the request supplies non-empty replaced by its normalised value
  (\<open>normalizeDate\<close>, \<open>convertTo12Hour\<close>, and the schema's trim for the purpose) and
  every other field as it was. If \<open>s'\<close> passes the schema's validators it is stored and
  returned with 200; otherwise the answer is 500 and the store is unchanged.
\<close>

theorem put_update_spec:
  "((castObjectId rt i = None \<or> (\<exists>k. castObjectId rt i = Some k \<and> slots st k = None)) \<longrightarrow>
      put_update rt st i ub = (Response 404 (Message ''Slot not found''), st))
   \<and> (\<forall>k s s'. castObjectId rt i = Some k \<and> slots st k = Some s
         \<and> s' = s\<lparr>date := (if truthy (upd_date ub) then normalizeDate rt (the (upd_date ub))
                            else date s),
                   startTime := (if truthy (upd_startTime ub)
                                 then convertTo12Hour (the (upd_startTime ub)) else startTime s),
                   endTime := (if truthy (upd_endTime ub)
                               then convertTo12Hour (the (upd_endTime ub)) else endTime s),
                   purpose := (if truthy (upd_purpose ub) then trim (the (upd_purpose ub))
                               else purpose s)\<rparr> \<longrightarrow>
         eventId s' = eventId s \<and> status s' = status s \<and> bookedBy s' = bookedBy s
         \<and> createdBy s' = createdBy s
         \<and> (if schemaValid s'
            then \<exists>j. put_update rt st i ub =
                        (Response 200 (SlotOut j), st\<lparr>slots := (slots st)(k \<mapsto> s')\<rparr>)
                      \<and> toJSON k (events st (eventId s)) s' = Inr j
            else put_update rt st i ub = (Response 500 (ServerError ValidationError), st)))"
proof (intro conjI impI allI)
  assume "castObjectId rt i = None \<or> (\<exists>k. castObjectId rt i = Some k \<and> slots st k = None)"
  then show "put_update rt st i ub = (Response 404 (Message ''Slot not found''), st)"
    by (auto simp: put_update_def findById_def catch_ObjectId_def)
next
  fix k and s s' :: slot
  let ?d = "apply_update rt ub \<lparr>content = s, castError = False\<rparr>"
  assume a: "castObjectId rt i = Some k \<and> slots st k = Some s
         \<and> s' = s\<lparr>date := (if truthy (upd_date ub) then normalizeDate rt (the (upd_date ub))
                            else date s),
                   startTime := (if truthy (upd_startTime ub)
                                 then convertTo12Hour (the (upd_startTime ub)) else startTime s),
                   endTime := (if truthy (upd_endTime ub)
                               then convertTo12Hour (the (upd_endTime ub)) else endTime s),
                   purpose := (if truthy (upd_purpose ub) then trim (the (upd_purpose ub))
                               else purpose s)\<rparr>"
  then show "eventId s' = eventId s" "status s' = status s" "bookedBy s' = bookedBy s"
    "createdBy s' = createdBy s" by simp_all
  have f: "findById rt (slots st) i = Inr (Some (k, s))"
    using a by (simp add: find_slot)
  have ce: "castError ?d = (truthy (upd_date ub) \<and> normalizeDate rt (the (upd_date ub)) = None)"
    by (simp add: apply_update_fields)
  show "if schemaValid s'
        then \<exists>j. put_update rt st i ub =
                    (Response 200 (SlotOut j), st\<lparr>slots := (slots st)(k \<mapsto> s')\<rparr>)
                  \<and> toJSON k (events st (eventId s)) s' = Inr j
        else put_update rt st i ub = (Response 500 (ServerError ValidationError), st)"
  proof (cases "schemaValid s'")
    case True
    then have dn: "date s' \<noteq> None" by (simp add: schemaValid_def)
    have nce: "\<not> castError ?d" using dn a ce by (auto split: if_splits)
    have eq: "content ?d = s'" using a nce ce by (simp add: apply_update_content)
    obtain j where j: "toJSON k (events st (eventId s)) s' = Inr j"
      using toJSON_valid[OF True] by blast
    let ?st = "st\<lparr>slots := (slots st)(k \<mapsto> s')\<rparr>"
    have sl: "slots ?st k = Some s'" by simp
    have es: "events ?st (eventId s') = events st (eventId s)" using a by simp
    have snd: "send_slot 200 ?st k = Response 200 (SlotOut j)"
      by (rule send_slot_valid[OF sl]) (simp only: es j)
    have "put_update rt st i ub = (Response 200 (SlotOut j), ?st)"
      using nce eq True snd by (simp add: put_update_def f save_def)
    then show ?thesis using True j by auto
  next
    case False
    have "castError ?d \<or> \<not> schemaValid (content ?d)"
    proof (cases "castError ?d")
      case True
      then show ?thesis by simp
    next
      case nce: False
      have "content ?d = s'" using a nce ce by (auto simp add: apply_update_content)
      then show ?thesis using False by simp
    qed
    then have "put_update rt st i ub = (Response 500 (ServerError ValidationError), st)"
      by (auto simp: put_update_def f save_def catch_ObjectId_def)
    then show ?thesis using False by simp
  qed
qed

theorem put_update_spec_witness:
  "castObjectId rt0 S1 = Some S1 \<and> castObjectId rt0 S1_upper = Some S1
   \<and> slots st1 S1 = Some slot1 \<and> schemaValid slot3
   \<and> put_update rt0 st1 S1 ub_ok
       = (Response 200 (SlotOut (json1\<lparr>j_startTime := ''9:05 AM'', j_purpose := ''Review''\<rparr>)),
          st1\<lparr>slots := (slots st1)(S1 \<mapsto> slot3)\<rparr>)
   \<and> put_update rt0 st1 S1_upper ub_ok
       = (Response 200 (SlotOut (json1\<lparr>j_startTime := ''9:05 AM'', j_purpose := ''Review''\<rparr>)),
          st1\<lparr>slots := (slots st1)(S1 \<mapsto> slot3)\<rparr>)
   \<and> slots st1 E1 = None
   \<and> put_update rt0 st1 E1 ub_ok = (Response 404 (Message ''Slot not found''), st1)
   \<and> castObjectId rt0 ''a1'' = None
   \<and> put_update rt0 st1 ''a1'' ub_ok = (Response 404 (Message ''Slot not found''), st1)"
proof -
  have e: "slot1\<lparr>date := (if truthy (upd_date ub_ok) then normalizeDate rt0 (the (upd_date ub_ok))
                            else date slot1),
                   startTime := (if truthy (upd_startTime ub_ok)
                                 then convertTo12Hour (the (upd_startTime ub_ok))
                                 else startTime slot1),
                   endTime := (if truthy (upd_endTime ub_ok)
                               then convertTo12Hour (the (upd_endTime ub_ok)) else endTime slot1),
                   purpose := (if truthy (upd_purpose ub_ok) then trim (the (upd_purpose ub_ok))
                               else purpose slot1)\<rparr> = slot3"
    unfolding if_P[OF ub_ok_truthy(1)] if_P[OF ub_ok_truthy(2)] if_not_P[OF ub_ok_truthy(3)]
      if_P[OF ub_ok_truthy(4)]
    by (simp add: ub_ok_def normalize_2024 conv_examples trim_examples slot3_def slot1_def)
  have tj: "toJSON S1 (events st1 (eventId slot1)) slot3
              = Inr (json1\<lparr>j_startTime := ''9:05 AM'', j_purpose := ''Review''\<rparr>)"
    by (simp add: slot1_sel st1_slots toJSON_def slot3_def slot1_def json1_def iso_2024)
  have p: "castObjectId rt0 S1 = Some S1 \<and> slots st1 S1 = Some slot1 \<and> slot3 = slot3"
    using ids_rt0(2) st1_slots(1) by simp
  have pu: "castObjectId rt0 S1_upper = Some S1 \<and> slots st1 S1 = Some slot1 \<and> slot3 = slot3"
    using ids_rt0(4) st1_slots(1) by simp
  note u = put_update_spec[where rt = rt0 and i = S1 and st = st1 and ub = ub_ok,
      THEN conjunct2, THEN spec, THEN spec, THEN spec, THEN mp, of S1 slot1 slot3,
      unfolded e, OF p]
  note uu = put_update_spec[where rt = rt0 and i = S1_upper and st = st1 and ub = ub_ok,
      THEN conjunct2, THEN spec, THEN spec, THEN spec, THEN mp, of S1 slot1 slot3,
      unfolded e, OF pu]
  have a: "put_update rt0 st1 S1 ub_ok
       = (Response 200 (SlotOut (json1\<lparr>j_startTime := ''9:05 AM'', j_purpose := ''Review''\<rparr>)),
          st1\<lparr>slots := (slots st1)(S1 \<mapsto> slot3)\<rparr>)"
    using u slot3_valid tj by auto
  have au: "put_update rt0 st1 S1_upper ub_ok
       = (Response 200 (SlotOut (json1\<lparr>j_startTime := ''9:05 AM'', j_purpose := ''Review''\<rparr>)),
          st1\<lparr>slots := (slots st1)(S1 \<mapsto> slot3)\<rparr>)"
    using uu slot3_valid tj by auto
  have n1: "castObjectId rt0 E1 = None
            \<or> (\<exists>k. castObjectId rt0 E1 = Some k \<and> slots st1 k = None)"
    using ids_rt0(1) absent_E1(1) by simp
  have c: "put_update rt0 st1 E1 ub_ok = (Response 404 (Message ''Slot not found''), st1)"
    using put_update_spec[where rt = rt0 and i = E1 and st = st1 and ub = ub_ok,
      THEN conjunct1, THEN mp, OF n1] .
  have nc: "castObjectId rt0 ''a1'' = None"
    by (simp add: rt0_def castHex24_def hex24_def)
  then have n2: "castObjectId rt0 ''a1'' = None
            \<or> (\<exists>k. castObjectId rt0 ''a1'' = Some k \<and> slots st1 k = None)"
    by simp
  have d: "put_update rt0 st1 ''a1'' ub_ok = (Response 404 (Message ''Slot not found''), st1)"
    using put_update_spec[where rt = rt0 and i = "''a1''" and st = st1 and ub = ub_ok,
      THEN conjunct1, THEN mp, OF n2] .
  show ?thesis
    using ids_rt0(2) ids_rt0(4) st1_slots(1) slot3_valid a au absent_E1(1) c nc d
    by (intro conjI) simp_all
qed

text \<open>
  C9, as the claim states it, fails: the start time \<open>14:75\<close> is supplied for an
  existing slot, the update is answered with 500 and the stored start time is not
  overwritten.
\<close>

theorem put_update_counterexample:
  "castObjectId rt0 S1 = Some S1 \<and> slots st1 S1 = Some slot1
   \<and> upd_startTime ub_bad = Some ''14:75''
   \<and> put_update rt0 st1 S1 ub_bad = (Response 500 (ServerError ValidationError), st1)
   \<and> startTime slot1 = ''2:30 PM''
   \<and> convertTo12Hour ''14:75'' = ''2:75 PM''
   \<and> startTime slot1 \<noteq> convertTo12Hour ''14:75''"
proof -
  have u: "upd_startTime ub_bad = Some ''14:75''" by (simp add: ub_bad_def)
  show ?thesis
    using u update_bad st1_slots(1) ids_rt0(2) by (simp add: conv_examples slot1_sel)
qed

text \<open>
  C10. An update in which \<open>date\<close>, \<open>startTime\<close>, \<open>endTime\<close> or \<open>purpose\<close> is the empty
  string does what the same update without that field does. Whatever the request, a
  field supplied empty keeps its stored value, and a stored field that is not empty is
  not empty afterwards, in every slot of the store. On a reachable store, an update of
  an existing slot whose four fields are all empty or missing is answered with 200 and
  the slot as it was, and the store is unchanged.
\<close>

theorem update_empty_as_omitted:
  "put_update rt st i (ub\<lparr>upd_date := Some []\<rparr>) = put_update rt st i (ub\<lparr>upd_date := None\<rparr>)
   \<and> put_update rt st i (ub\<lparr>upd_startTime := Some []\<rparr>)
       = put_update rt st i (ub\<lparr>upd_startTime := None\<rparr>)
   \<and> put_update rt st i (ub\<lparr>upd_endTime := Some []\<rparr>)
       = put_update rt st i (ub\<lparr>upd_endTime := None\<rparr>)
   \<and> put_update rt st i (ub\<lparr>upd_purpose := Some []\<rparr>)
       = put_update rt st i (ub\<lparr>upd_purpose := None\<rparr>)
   \<and> (\<forall>r st' k s. put_update rt st i ub = (r, st') \<and> slots st k = Some s \<longrightarrow>
         (\<exists>s'. slots st' k = Some s'
            \<and> (upd_date ub = Some [] \<longrightarrow> date s' = date s)
            \<and> (upd_startTime ub = Some [] \<longrightarrow> startTime s' = startTime s)
            \<and> (upd_endTime ub = Some [] \<longrightarrow> endTime s' = endTime s)
            \<and> (upd_purpose ub = Some [] \<longrightarrow> purpose s' = purpose s)
            \<and> (date s \<noteq> None \<longrightarrow> date s' \<noteq> None)
            \<and> (startTime s \<noteq> [] \<longrightarrow> startTime s' \<noteq> [])
            \<and> (endTime s \<noteq> [] \<longrightarrow> endTime s' \<noteq> [])
            \<and> (purpose s \<noteq> [] \<longrightarrow> purpose s' \<noteq> [])))
   \<and> (\<forall>k s. reachable rt st \<and> castObjectId rt i = Some k \<and> slots st k = Some s
          \<and> upd_date ub \<in> {None, Some []} \<and> upd_startTime ub \<in> {None, Some []}
          \<and> upd_endTime ub \<in> {None, Some []} \<and> upd_purpose ub \<in> {None, Some []} \<longrightarrow>
         (\<exists>j. put_update rt st i ub = (Response 200 (SlotOut j), st)
             \<and> toJSON k (events st (eventId s)) s = Inr j))"
proof -
  have E: "put_update rt st i (ub\<lparr>upd_date := Some []\<rparr>) = put_update rt st i (ub\<lparr>upd_date := None\<rparr>)"
    "put_update rt st i (ub\<lparr>upd_startTime := Some []\<rparr>)
       = put_update rt st i (ub\<lparr>upd_startTime := None\<rparr>)"
    "put_update rt st i (ub\<lparr>upd_endTime := Some []\<rparr>)
       = put_update rt st i (ub\<lparr>upd_endTime := None\<rparr>)"
    "put_update rt st i (ub\<lparr>upd_purpose := Some []\<rparr>)
       = put_update rt st i (ub\<lparr>upd_purpose := None\<rparr>)"
    unfolding put_update_def apply_update_empty by simp_all
  have K: "\<exists>s'. slots st' k = Some s'
            \<and> (upd_date ub = Some [] \<longrightarrow> date s' = date s)
            \<and> (upd_startTime ub = Some [] \<longrightarrow> startTime s' = startTime s)
            \<and> (upd_endTime ub = Some [] \<longrightarrow> endTime s' = endTime s)
            \<and> (upd_purpose ub = Some [] \<longrightarrow> purpose s' = purpose s)
            \<and> (date s \<noteq> None \<longrightarrow> date s' \<noteq> None)
            \<and> (startTime s \<noteq> [] \<longrightarrow> startTime s' \<noteq> [])
            \<and> (endTime s \<noteq> [] \<longrightarrow> endTime s' \<noteq> [])
            \<and> (purpose s \<noteq> [] \<longrightarrow> purpose s' \<noteq> [])"
    if e: "put_update rt st i ub = (r, st')" and s: "slots st k = Some s" for r st' k s
    using put_update_cases[OF e]
  proof (elim disjE exE conjE)
    assume "st' = st"
    then show ?thesis using s by simp
  next
    fix k0 s0 s1 j
    assume a: "slots st k0 = Some s0"
      "s1 = content (apply_update rt ub \<lparr>content = s0, castError = False\<rparr>)"
      "schemaValid s1" "st' = st\<lparr>slots := (slots st)(k0 \<mapsto> s1)\<rparr>"
    show ?thesis
    proof (cases "k = k0")
      case False
      then have "slots st' k = Some s" using a(4) s by simp
      then show ?thesis by simp
    next
      case True
      then have s0: "s0 = s" using a(1) s by simp
      have "slots st' k = Some s1" using a(4) True by simp
      moreover have "upd_date ub = Some [] \<longrightarrow> date s1 = date s"
        "upd_startTime ub = Some [] \<longrightarrow> startTime s1 = startTime s"
        "upd_endTime ub = Some [] \<longrightarrow> endTime s1 = endTime s"
        "upd_purpose ub = Some [] \<longrightarrow> purpose s1 = purpose s"
        using a(2) s0 by (auto simp: apply_update_fields truthy_def)
      moreover have "date s1 \<noteq> None" "startTime s1 \<noteq> []" "endTime s1 \<noteq> []" "purpose s1 \<noteq> []"
        using a(3) by (simp_all add: schemaValid_def)
      ultimately show ?thesis by blast
    qed
  qed
  have S: "\<exists>j. put_update rt st i ub = (Response 200 (SlotOut j), st)
             \<and> toJSON k (events st (eventId s)) s = Inr j"
    if a: "reachable rt st \<and> castObjectId rt i = Some k \<and> slots st k = Some s
          \<and> upd_date ub \<in> {None, Some []} \<and> upd_startTime ub \<in> {None, Some []}
          \<and> upd_endTime ub \<in> {None, Some []} \<and> upd_purpose ub \<in> {None, Some []}" for k s
  proof -
    have v: "schemaValid s" using reachable_inv[of rt st k s] a by simp
    have nt: "\<not> truthy (upd_date ub)" "\<not> truthy (upd_startTime ub)"
      "\<not> truthy (upd_endTime ub)" "\<not> truthy (upd_purpose ub)"
      using a by (auto simp: truthy_def)
    have d: "apply_update rt ub \<lparr>content = s, castError = False\<rparr> = \<lparr>content = s, castError = False\<rparr>"
      using nt by (simp add: apply_update_def when_truthy_eq)
    have f: "findById rt (slots st) i = Inr (Some (k, s))"
      using a by (simp add: find_slot)
    obtain j where j: "toJSON k (events st (eventId s)) s = Inr j"
      using toJSON_valid[OF v] by blast
    have same: "st\<lparr>slots := (slots st)(k \<mapsto> s)\<rparr> = st"
      using a by (simp add: store_write_same)
    have snd: "send_slot 200 st k = Response 200 (SlotOut j)"
      using a j by (simp add: send_slot_def)
    have "put_update rt st i ub = (Response 200 (SlotOut j), st)"
      using v d same snd by (simp add: put_update_def f save_def)
    then show ?thesis using j by blast
  qed
  show ?thesis using E K S by blast
qed

theorem update_empty_as_omitted_witness:
  "reachable rt0 st1 \<and> castObjectId rt0 S1_upper = Some S1 \<and> slots st1 S1 = Some slot1
   \<and> upd_date ub_empty = Some [] \<and> upd_startTime ub_empty = Some []
   \<and> upd_endTime ub_empty = None \<and> upd_purpose ub_empty = Some []
   \<and> put_update rt0 st1 S1_upper ub_empty = (Response 200 (SlotOut json1), st1)"
proof -
  have b: "upd_date ub_empty = Some []" "upd_startTime ub_empty = Some []"
    "upd_endTime ub_empty = None" "upd_purpose ub_empty = Some []"
    by (simp_all add: ub_empty_def)
  have p: "reachable rt0 st1 \<and> castObjectId rt0 S1_upper = Some S1 \<and> slots st1 S1 = Some slot1
          \<and> upd_date ub_empty \<in> {None, Some []} \<and> upd_startTime ub_empty \<in> {None, Some []}
          \<and> upd_endTime ub_empty \<in> {None, Some []} \<and> upd_purpose ub_empty \<in> {None, Some []}"
    using reachable_st1 ids_rt0(4) st1_slots(1) b by simp
  note u = update_empty_as_omitted[where rt = rt0 and st = st1 and i = S1_upper
      and ub = ub_empty,
      THEN conjunct2, THEN conjunct2, THEN conjunct2, THEN conjunct2, THEN conjunct2,
      THEN spec, THEN spec, THEN mp, OF p]
  have j: "toJSON S1 (events st1 (eventId slot1)) slot1 = Inr json1"
    by (simp add: slot1_sel st1_slots toJSON_slot1)
  have "put_update rt0 st1 S1_upper ub_empty = (Response 200 (SlotOut json1), st1)"
    using u j by auto
  then show ?thesis using reachable_st1 ids_rt0(4) st1_slots(1) b by simp
qed

end
